theory Spec2Isabelle
  imports Complex_Main
begin

section \<open>Python values\<close>

text \<open>
  The decision core of the document verification backend
  (\<^verbatim>\<open>app/services/pipeline.py\<close>, \<^verbatim>\<open>validator.py\<close>, \<^verbatim>\<open>fraud.py\<close>,
  \<^verbatim>\<open>app/schemas/document.py\<close>) works on the dictionary that \<^verbatim>\<open>json.loads\<close>
  returns for the answer of the vision model. The values below are the values
  \<^verbatim>\<open>json.loads\<close> can produce.

  \<^item> A Python \<^verbatim>\<open>str\<close> is a \<^typ>\<open>string\<close>; a character is read as the code point
    of the same number, so the strings of the model are the Python strings over
    U+0000 .. U+00FF. Lengths count characters, as Python's \<^verbatim>\<open>len\<close> does.
  \<^item> A Python \<^verbatim>\<open>float\<close> is the rational number it denotes, or one of the three
    special values. Rounding of decimal text to binary64 is not modelled; the
    overflow of a conversion is.
  \<^item> A \<^verbatim>\<open>dict\<close> is the list of its items in insertion order (the keys of a
    \<^verbatim>\<open>dict\<close> are distinct); \<^verbatim>\<open>d.get(k, default)\<close> is a lookup in that list.
  \<^item> An exception is a value \<^term>\<open>Inl e\<close> of the result; \<^term>\<open>Inr x\<close> is a normal return.
\<close>

datatype pyfloat = Fin rat | PosInf | NegInf | NaN

datatype json =
    JNull
  | JBool bool
  | JInt int
  | JFloat pyfloat
  | JStr string
  | JArr "json list"
  | JObj "(string \<times> json) list"

datatype pyerr = AttributeError | TypeError | ValueError | OverflowError

definition and_then :: "pyerr + 'a \<Rightarrow> ('a \<Rightarrow> pyerr + 'b) \<Rightarrow> pyerr + 'b" where
  "and_then m f = (case m of Inl e \<Rightarrow> Inl e | Inr x \<Rightarrow> f x)"

text \<open>\<^verbatim>\<open>d.get(key, default)\<close> on a dictionary, and on an arbitrary value: only a
  \<^verbatim>\<open>dict\<close> has the method, every other JSON value raises \<^verbatim>\<open>AttributeError\<close>.\<close>

definition dict_get :: "(string \<times> json) list \<Rightarrow> string \<Rightarrow> json \<Rightarrow> json" where
  "dict_get d key dflt = (case map_of d key of None \<Rightarrow> dflt | Some v \<Rightarrow> v)"

definition attr_get :: "json \<Rightarrow> string \<Rightarrow> json \<Rightarrow> pyerr + json" where
  "attr_get obj key dflt =
     (case obj of JObj d \<Rightarrow> Inr (dict_get d key dflt) | _ \<Rightarrow> Inl AttributeError)"

text \<open>\<^verbatim>\<open>d.items()\<close>: again only a \<^verbatim>\<open>dict\<close> has the method.\<close>

definition py_items :: "json \<Rightarrow> pyerr + (string \<times> json) list" where
  "py_items obj = (case obj of JObj d \<Rightarrow> Inr d | _ \<Rightarrow> Inl AttributeError)"

text \<open>Truth value of a JSON value (\<^verbatim>\<open>if x\<close>, \<^verbatim>\<open>not x\<close>).\<close>

fun truthy :: "json \<Rightarrow> bool" where
  "truthy JNull = False"
| "truthy (JBool b) = b"
| "truthy (JInt i) = (i \<noteq> 0)"
| "truthy (JFloat (Fin q)) = (q \<noteq> 0)"
| "truthy (JFloat _) = True"
| "truthy (JStr s) = (s \<noteq> [])"
| "truthy (JArr xs) = (xs \<noteq> [])"
| "truthy (JObj d) = (d \<noteq> [])"

text \<open>\<^verbatim>\<open>for x in v\<close>: a list gives its elements, a string its characters (each a
  string of length one), a dictionary its keys; nothing else is iterable.\<close>

fun py_iter :: "json \<Rightarrow> pyerr + json list" where
  "py_iter (JArr xs) = Inr xs"
| "py_iter (JStr s) = Inr (map (\<lambda>c. JStr [c]) s)"
| "py_iter (JObj d) = Inr (map (\<lambda>kv. JStr (fst kv)) d)"
| "py_iter _ = Inl TypeError"

subsection \<open>Numbers: comparison with a float literal, conversion, formatting\<close>

text \<open>\<^verbatim>\<open>x < c\<close> and \<^verbatim>\<open>x >= c\<close> for a float literal \<^verbatim>\<open>c\<close>. Every comparison
  with NaN is false. \<^verbatim>\<open>bool\<close> is a subclass of \<^verbatim>\<open>int\<close>; a value that is not a
  number raises \<^verbatim>\<open>TypeError\<close>.\<close>

fun float_lt :: "pyfloat \<Rightarrow> rat \<Rightarrow> bool" where
  "float_lt (Fin q) c = (q < c)"
| "float_lt NegInf c = True"
| "float_lt PosInf c = False"
| "float_lt NaN c = False"

fun float_ge :: "pyfloat \<Rightarrow> rat \<Rightarrow> bool" where
  "float_ge (Fin q) c = (q \<ge> c)"
| "float_ge PosInf c = True"
| "float_ge NegInf c = False"
| "float_ge NaN c = False"

fun json_lt :: "json \<Rightarrow> rat \<Rightarrow> pyerr + bool" where
  "json_lt (JBool b) c = Inr ((if b then 1 else 0) < c)"
| "json_lt (JInt i) c = Inr (of_int i < c)"
| "json_lt (JFloat f) c = Inr (float_lt f c)"
| "json_lt _ c = Inl TypeError"

fun json_ge :: "json \<Rightarrow> rat \<Rightarrow> pyerr + bool" where
  "json_ge (JBool b) c = Inr ((if b then 1 else 0) \<ge> c)"
| "json_ge (JInt i) c = Inr (of_int i \<ge> c)"
| "json_ge (JFloat f) c = Inr (float_ge f c)"
| "json_ge _ c = Inl TypeError"

text \<open>An integer of magnitude at least \<open>2^1024 - 2^970\<close> does not round to a finite
  binary64 value: converting it raises \<^verbatim>\<open>OverflowError\<close>.\<close>

definition float_overflow :: int where
  "float_overflow = 2 ^ 1024 - 2 ^ 970"

definition digit_char :: "nat \<Rightarrow> char" where
  "digit_char n = ''0123456789'' ! n"

fun show_nat :: "nat \<Rightarrow> string" where
  "show_nat n = (if n < 10 then [digit_char n] else show_nat (n div 10) @ [digit_char (n mod 10)])"

declare show_nat.simps [simp del]

text \<open>Rounding to the nearest integer, ties to even, of a non-negative rational.\<close>

definition round_half_even :: "rat \<Rightarrow> nat" where
  "round_half_even x =
     (let f = nat \<lfloor>x\<rfloor>; d = x - of_int \<lfloor>x\<rfloor>
      in if d < 1 / 2 then f else if 1 / 2 < d then f + 1 else if even f then f else f + 1)"

text \<open>The format \<^verbatim>\<open>.2f\<close> of a finite number: sign, integer part, point, two digits.\<close>

definition fixed2 :: "rat \<Rightarrow> string" where
  "fixed2 q =
     (let n = round_half_even \<bar>q\<bar>
      in (if q < 0 then ''-'' else '''') @ show_nat (n div 100) @ ''.''
           @ [digit_char (n mod 100 div 10), digit_char (n mod 10)])"

fun float_2f :: "pyfloat \<Rightarrow> string" where
  "float_2f (Fin q) = fixed2 (q * 100)"
| "float_2f PosInf = ''inf''"
| "float_2f NegInf = ''-inf''"
| "float_2f NaN = ''nan''"

text \<open>\<^verbatim>\<open>f"{x:.2f}"\<close>: an \<^verbatim>\<open>int\<close> (and a \<^verbatim>\<open>bool\<close>) is converted to \<^verbatim>\<open>float\<close> first;
  \<^verbatim>\<open>None\<close>, lists and dictionaries reject the format with \<^verbatim>\<open>TypeError\<close>, a string
  with \<^verbatim>\<open>ValueError\<close>.\<close>

fun format_2f :: "json \<Rightarrow> pyerr + string" where
  "format_2f (JFloat f) = Inr (float_2f f)"
| "format_2f (JInt i) =
     (if \<bar>i\<bar> \<ge> float_overflow then Inl OverflowError else Inr (float_2f (Fin (of_int i))))"
| "format_2f (JBool b) = Inr (float_2f (Fin (if b then 1 else 0)))"
| "format_2f (JStr s) = Inl ValueError"
| "format_2f _ = Inl TypeError"

subsection \<open>Strings\<close>

text \<open>\<^verbatim>\<open>str.isspace\<close>, which is also \<^verbatim>\<open>\s\<close> of a \<^verbatim>\<open>str\<close> pattern and the set that
  \<^verbatim>\<open>str.strip()\<close> removes: below U+0100 these are U+0009 .. U+000D, U+001C .. U+0020,
  U+0085 and U+00A0.\<close>

definition py_isspace :: "char \<Rightarrow> bool" where
  "py_isspace c =
     (let n = (of_char c :: nat) in (9 \<le> n \<and> n \<le> 13) \<or> (28 \<le> n \<and> n \<le> 32) \<or> n = 133 \<or> n = 160)"

text \<open>\<^verbatim>\<open>\d\<close> of a \<^verbatim>\<open>str\<close> pattern is a decimal digit of any script; below U+0100
  these are \<^verbatim>\<open>0\<close> .. \<^verbatim>\<open>9\<close>, the class \<^verbatim>\<open>[0-9]\<close>.\<close>

definition is_digit :: "char \<Rightarrow> bool" where
  "is_digit c = (let n = (of_char c :: nat) in 48 \<le> n \<and> n \<le> 57)"

definition digit_val :: "char \<Rightarrow> nat" where
  "digit_val c = of_char c - 48"

definition nat_of_digits :: "string \<Rightarrow> nat" where
  "nat_of_digits ds = foldl (\<lambda>a c. 10 * a + digit_val c) 0 ds"

definition is_upper_AZ :: "char \<Rightarrow> bool" where
  "is_upper_AZ c = (let n = (of_char c :: nat) in 65 \<le> n \<and> n \<le> 90)"

definition strip_with :: "(char \<Rightarrow> bool) \<Rightarrow> string \<Rightarrow> string" where
  "strip_with sp s = rev (dropWhile sp (rev (dropWhile sp s)))"

definition py_strip :: "string \<Rightarrow> string" where
  "py_strip s = strip_with py_isspace s"

text \<open>\<^verbatim>\<open>str.lower()\<close>: the upper-case letters below U+0100 are \<^verbatim>\<open>A\<close> .. \<^verbatim>\<open>Z\<close> and
  U+00C0 .. U+00DE without the multiplication sign U+00D7.\<close>

definition lower_char :: "char \<Rightarrow> char" where
  "lower_char c =
     (let n = (of_char c :: nat)
      in if (65 \<le> n \<and> n \<le> 90) \<or> (192 \<le> n \<and> n \<le> 222 \<and> n \<noteq> 215) then char_of (n + 32) else c)"

definition py_lower :: "string \<Rightarrow> string" where
  "py_lower s = map lower_char s"

text \<open>\<^verbatim>\<open>str.upper()\<close>: U+00DF becomes \<^verbatim>\<open>SS\<close>. The upper-case forms of U+00B5 and
  U+00FF lie above U+00FF (U+039C, U+0178); the two characters are left as they are,
  which the patterns applied to the result cannot tell apart: neither form is in
  \<^verbatim>\<open>[A-Z]\<close>, a digit or white space.\<close>

definition upper_char :: "char \<Rightarrow> string" where
  "upper_char c =
     (let n = (of_char c :: nat)
      in if (97 \<le> n \<and> n \<le> 122) \<or> (224 \<le> n \<and> n \<le> 254 \<and> n \<noteq> 247) then [char_of (n - 32)]
         else if n = 223 then ''SS'' else [c])"

definition py_upper :: "string \<Rightarrow> string" where
  "py_upper s = concat (map upper_char s)"

text \<open>\<^verbatim>\<open>sub in s\<close> for strings.\<close>

fun contains :: "string \<Rightarrow> string \<Rightarrow> bool" where
  "contains sub [] = (sub = [])"
| "contains sub (c # s) = (take (length sub) (c # s) = sub \<or> contains sub s)"

text \<open>Lexicographic order of sequences of code points, the order of \<^verbatim>\<open>str\<close> and of
  the fields of a \<^verbatim>\<open>datetime\<close>.\<close>

fun lex_less :: "nat list \<Rightarrow> nat list \<Rightarrow> bool" where
  "lex_less [] [] = False"
| "lex_less [] (y # ys) = True"
| "lex_less (x # xs) [] = False"
| "lex_less (x # xs) (y # ys) = (x < y \<or> (x = y \<and> lex_less xs ys))"

definition lex_le :: "nat list \<Rightarrow> nat list \<Rightarrow> bool" where
  "lex_le xs ys = (xs = ys \<or> lex_less xs ys)"

definition code_points :: "string \<Rightarrow> nat list" where
  "code_points s = map of_char s"

subsection \<open>\<^verbatim>\<open>float(x)\<close>\<close>

text \<open>On a string, \<^verbatim>\<open>float\<close> removes white space at both ends (the ASCII white
  space and the white space above U+007F), requires every underscore to stand between
  two digits, and reads a sign followed by \<^verbatim>\<open>inf\<close>, \<^verbatim>\<open>infinity\<close>, \<^verbatim>\<open>nan\<close> (in any
  case) or by a decimal number with an optional exponent. Anything else raises
  \<^verbatim>\<open>ValueError\<close>. A number too large for binary64 is an infinity.\<close>

definition float_isspace :: "char \<Rightarrow> bool" where
  "float_isspace c =
     (let n = (of_char c :: nat) in (9 \<le> n \<and> n \<le> 13) \<or> n = 32 \<or> n = 133 \<or> n = 160)"

fun underscores_ok :: "char \<Rightarrow> string \<Rightarrow> bool" where
  "underscores_ok prev [] = (prev \<noteq> CHR ''_'')"
| "underscores_ok prev (c # s) =
     ((if c = CHR ''_'' then is_digit prev else prev \<noteq> CHR ''_'' \<or> is_digit c)
      \<and> underscores_ok c s)"

definition parse_sign :: "string \<Rightarrow> bool \<times> string" where
  "parse_sign s =
     (case s of
        c # r \<Rightarrow> if c = CHR ''-'' then (True, r) else if c = CHR ''+'' then (False, r) else (False, s)
      | [] \<Rightarrow> (False, s))"

definition scale10 :: "rat \<Rightarrow> int \<Rightarrow> rat" where
  "scale10 x k = (if 0 \<le> k then x * 10 ^ nat k else x / 10 ^ nat (- k))"

definition make_float :: "bool \<Rightarrow> rat \<Rightarrow> pyfloat" where
  "make_float neg x =
     (if of_int float_overflow \<le> x then (if neg then NegInf else PosInf)
      else Fin (if neg then - x else x))"

definition parse_exponent :: "string \<Rightarrow> int option" where
  "parse_exponent s =
     (case s of
        [] \<Rightarrow> Some 0
      | e # r \<Rightarrow>
          if e = CHR ''e'' \<or> e = CHR ''E''
          then (let (neg, r1) = parse_sign r
                in if r1 \<noteq> [] \<and> list_all is_digit r1
                   then Some (if neg then - int (nat_of_digits r1) else int (nat_of_digits r1))
                   else None)
          else None)"

definition str_to_double :: "string \<Rightarrow> pyfloat option" where
  "str_to_double s =
     (let (neg, r) = parse_sign s; word = py_lower r
      in if word = ''inf'' \<or> word = ''infinity'' then Some (if neg then NegInf else PosInf)
         else if word = ''nan'' then Some NaN
         else
           let ip = takeWhile is_digit r; r1 = dropWhile is_digit r;
               has_point = (r1 \<noteq> [] \<and> hd r1 = CHR ''.'');
               fp = (if has_point then takeWhile is_digit (tl r1) else []);
               r2 = (if has_point then dropWhile is_digit (tl r1) else r1)
           in if ip = [] \<and> fp = [] then None
              else (case parse_exponent r2 of
                      None \<Rightarrow> None
                    | Some e \<Rightarrow>
                        Some (make_float neg
                          (scale10 (of_nat (nat_of_digits (ip @ fp))) (e - int (length fp))))))"

fun py_float :: "json \<Rightarrow> pyerr + pyfloat" where
  "py_float (JFloat f) = Inr f"
| "py_float (JInt i) =
     (if \<bar>i\<bar> \<ge> float_overflow then Inl OverflowError else Inr (Fin (of_int i)))"
| "py_float (JBool b) = Inr (Fin (if b then 1 else 0))"
| "py_float (JStr s) =
     (let t = strip_with float_isspace s
      in if underscores_ok (CHR 0x00) t
         then (case str_to_double (filter (\<lambda>c. c \<noteq> CHR ''_'') t) of
                 Some f \<Rightarrow> Inr f
               | None \<Rightarrow> Inl ValueError)
         else Inl ValueError)"
| "py_float _ = Inl TypeError"

text \<open>\<^verbatim>\<open>str(x)\<close> and \<^verbatim>\<open>f"{x}"\<close>: a string is itself. The text of any other value
  (\<^verbatim>\<open>repr\<close> of a number, a list, a dictionary, \<^verbatim>\<open>None\<close>, a truth value) is produced by
  the interpreter and never fails; the functions below take it as the parameter
  \<open>to_text\<close>.\<close>

definition py_str :: "(json \<Rightarrow> string) \<Rightarrow> json \<Rightarrow> string" where
  "py_str to_text v = (case v of JStr s \<Rightarrow> s | _ \<Rightarrow> to_text v)"

section \<open>Schemas (\<^verbatim>\<open>app/schemas/document.py\<close>)\<close>

datatype DocumentType =
  AADHAAR | PAN | VOTER_ID | DRIVING_LICENSE | PASSPORT | BIRTH_CERTIFICATE | UNKNOWN

datatype Recommendation = APPROVE | REVIEW | REJECT

text \<open>The fields \<^verbatim>\<open>value\<close> of \<^verbatim>\<open>ExtractedField\<close>, \<^verbatim>\<open>type\<close> of \<^verbatim>\<open>FraudSignal\<close> and
  \<^verbatim>\<open>fields\<close> of \<^verbatim>\<open>VerificationResult\<close> are \<open>field_value\<close>, \<open>signal_type\<close> and
  \<open>result_fields\<close> here. The severity of a signal is a string, as in the source.\<close>

record ExtractedField =
  field_value :: string
  confidence :: pyfloat

record FraudSignal =
  signal_type :: string
  description :: string
  severity :: string

record VerificationResult =
  request_id :: string
  document_type :: DocumentType
  confidence_score :: json
  result_fields :: "(string \<times> ExtractedField) list"
  validation_errors :: "string list"
  fraud_signals :: "FraudSignal list"
  recommendation :: Recommendation
  explanation :: string

section \<open>Validation rules (\<^verbatim>\<open>app/services/validator.py\<close>)\<close>

text \<open>\<^verbatim>\<open>fields.get(key, {}).get("value", "")\<close>: the entry of a field has to be a
  dictionary, or the second \<^verbatim>\<open>get\<close> raises.\<close>

definition value_of_field :: "(string \<times> json) list \<Rightarrow> string \<Rightarrow> pyerr + json" where
  "value_of_field flds key = attr_get (dict_get flds key (JObj [])) ''value'' (JStr [])"

text \<open>The patterns of the validator are sequences of character classes between
  \<^verbatim>\<open>^\<close> and \<^verbatim>\<open>$\<close>, applied with \<^verbatim>\<open>re.match\<close>. \<^verbatim>\<open>$\<close> matches at the end of the
  string and before a line feed that ends it.\<close>

fun match_classes :: "(char \<Rightarrow> bool) list \<Rightarrow> string \<Rightarrow> string option" where
  "match_classes [] s = Some s"
| "match_classes (cl # cls) [] = None"
| "match_classes (cl # cls) (c # s) = (if cl c then match_classes cls s else None)"

definition at_dollar :: "string \<Rightarrow> bool" where
  "at_dollar r = (r = [] \<or> r = [CHR 0x0A])"

definition re_match :: "(char \<Rightarrow> bool) list \<Rightarrow> string \<Rightarrow> bool" where
  "re_match cls s = (case match_classes cls s of Some r \<Rightarrow> at_dollar r | None \<Rightarrow> False)"

text \<open>\<^verbatim>\<open>^\d{12}$\<close>, \<^verbatim>\<open>^[A-Z]{5}[0-9]{4}[A-Z]$\<close> and \<^verbatim>\<open>^[A-Z]{3}\d{7}$\<close>.\<close>

definition aadhaar_pattern :: "(char \<Rightarrow> bool) list" where
  "aadhaar_pattern = replicate 12 is_digit"

definition pan_pattern :: "(char \<Rightarrow> bool) list" where
  "pan_pattern = replicate 5 is_upper_AZ @ replicate 4 is_digit @ [is_upper_AZ]"

definition voter_id_pattern :: "(char \<Rightarrow> bool) list" where
  "voter_id_pattern = replicate 3 is_upper_AZ @ replicate 7 is_digit"

text \<open>\<^verbatim>\<open>re.sub(r'\s+', '', id_number)\<close> removes every white space character; an
  \<^verbatim>\<open>id_number\<close> that is not a string raises \<^verbatim>\<open>TypeError\<close> there.\<close>

definition validate_aadhaar :: "(string \<times> json) list \<Rightarrow> pyerr + string list" where
  "validate_aadhaar flds =
     and_then (value_of_field flds ''id_number'') (\<lambda>id_number.
       case id_number of
         JStr s \<Rightarrow>
           (let clean_id = filter (\<lambda>c. \<not> py_isspace c) s
            in Inr (if \<not> re_match aadhaar_pattern clean_id
                    then [''Aadhaar number must be exactly 12 digits''] else []))
       | _ \<Rightarrow> Inl TypeError)"

text \<open>\<^verbatim>\<open>id_number.upper().strip()\<close>: only a string has \<^verbatim>\<open>upper\<close>.\<close>

definition validate_pan :: "(string \<times> json) list \<Rightarrow> pyerr + string list" where
  "validate_pan flds =
     and_then (value_of_field flds ''id_number'') (\<lambda>id_number.
       case id_number of
         JStr s \<Rightarrow>
           (let clean_id = py_strip (py_upper s)
            in Inr (if \<not> re_match pan_pattern clean_id
                    then [''PAN number must be in format ABCDE1234F''] else []))
       | _ \<Rightarrow> Inl AttributeError)"

definition validate_voter_id :: "(string \<times> json) list \<Rightarrow> pyerr + string list" where
  "validate_voter_id flds =
     and_then (value_of_field flds ''id_number'') (\<lambda>id_number.
       case id_number of
         JStr s \<Rightarrow>
           (let clean_id = py_strip (py_upper s)
            in Inr (if \<not> re_match voter_id_pattern clean_id
                    then [''Voter ID format appears invalid''] else []))
       | _ \<Rightarrow> Inl AttributeError)"

subsection \<open>Dates: \<^verbatim>\<open>datetime.strptime\<close>\<close>

record datetime =
  dt_year :: nat
  dt_month :: nat
  dt_day :: nat
  dt_hour :: nat
  dt_minute :: nat
  dt_second :: nat
  dt_microsecond :: nat

definition datetime_gt :: "datetime \<Rightarrow> datetime \<Rightarrow> bool" where
  "datetime_gt a b =
     lex_less [dt_year b, dt_month b, dt_day b, dt_hour b, dt_minute b, dt_second b,
               dt_microsecond b]
              [dt_year a, dt_month a, dt_day a, dt_hour a, dt_minute a, dt_second a,
               dt_microsecond a]"

text \<open>The directives of the five formats of \<^verbatim>\<open>validate_dob\<close>. \<^verbatim>\<open>strptime\<close>
  turns a format into a regular expression, matched without regard to case:
  \<^item> \<^verbatim>\<open>%d\<close> is \<^verbatim>\<open>3[0-1]|[1-2]\d|0[1-9]|[1-9]| [1-9]\<close>,
  \<^item> \<^verbatim>\<open>%m\<close> is \<^verbatim>\<open>1[0-2]|0[1-9]|[1-9]\<close>,
  \<^item> \<^verbatim>\<open>%Y\<close> is \<^verbatim>\<open>\d\d\d\d\<close>,
  \<^item> \<^verbatim>\<open>%b\<close> and \<^verbatim>\<open>%B\<close> are the alternatives of the month names of the C locale,
    the longer names first,
  \<^item> white space in the format is \<^verbatim>\<open>\s+\<close>, any other character is itself.

  A match is searched with backtracking, the alternatives tried from left to right;
  \<open>match_directive\<close> lists the ways one directive can match a prefix of the text, in
  that order, with the value read and the text that is left.\<close>

datatype directive = Dir_d | Dir_m | Dir_Y | Dir_b | Dir_B | Whitespace | Lit char

definition is_1_9 :: "char \<Rightarrow> bool" where
  "is_1_9 c = (let n = (of_char c :: nat) in 49 \<le> n \<and> n \<le> 57)"

definition day_alternatives :: "string \<Rightarrow> (nat \<times> string) list" where
  "day_alternatives s =
     (case s of a # b # r \<Rightarrow>
        if a = CHR ''3'' \<and> (b = CHR ''0'' \<or> b = CHR ''1'') then [(30 + digit_val b, r)] else []
      | _ \<Rightarrow> [])
     @ (case s of a # b # r \<Rightarrow>
        if (a = CHR ''1'' \<or> a = CHR ''2'') \<and> is_digit b
        then [(10 * digit_val a + digit_val b, r)] else []
      | _ \<Rightarrow> [])
     @ (case s of a # b # r \<Rightarrow>
        if a = CHR ''0'' \<and> is_1_9 b then [(digit_val b, r)] else []
      | _ \<Rightarrow> [])
     @ (case s of a # r \<Rightarrow> if is_1_9 a then [(digit_val a, r)] else [] | _ \<Rightarrow> [])
     @ (case s of a # b # r \<Rightarrow>
        if a = CHR '' '' \<and> is_1_9 b then [(digit_val b, r)] else []
      | _ \<Rightarrow> [])"

definition month_alternatives :: "string \<Rightarrow> (nat \<times> string) list" where
  "month_alternatives s =
     (case s of a # b # r \<Rightarrow>
        if a = CHR ''1'' \<and> (b = CHR ''0'' \<or> b = CHR ''1'' \<or> b = CHR ''2'')
        then [(10 + digit_val b, r)] else []
      | _ \<Rightarrow> [])
     @ (case s of a # b # r \<Rightarrow>
        if a = CHR ''0'' \<and> is_1_9 b then [(digit_val b, r)] else []
      | _ \<Rightarrow> [])
     @ (case s of a # r \<Rightarrow> if is_1_9 a then [(digit_val a, r)] else [] | _ \<Rightarrow> [])"

definition year_alternatives :: "string \<Rightarrow> (nat \<times> string) list" where
  "year_alternatives s =
     (if 4 \<le> length s \<and> list_all is_digit (take 4 s)
      then [(nat_of_digits (take 4 s), drop 4 s)] else [])"

definition month_abbreviations :: "(string \<times> nat) list" where
  "month_abbreviations =
     [(''jan'', 1), (''feb'', 2), (''mar'', 3), (''apr'', 4), (''may'', 5), (''jun'', 6),
      (''jul'', 7), (''aug'', 8), (''sep'', 9), (''oct'', 10), (''nov'', 11), (''dec'', 12)]"

definition month_names :: "(string \<times> nat) list" where
  "month_names =
     [(''september'', 9), (''february'', 2), (''november'', 11), (''december'', 12),
      (''january'', 1), (''october'', 10), (''august'', 8), (''march'', 3), (''april'', 4),
      (''june'', 6), (''july'', 7), (''may'', 5)]"

definition name_alternatives :: "(string \<times> nat) list \<Rightarrow> string \<Rightarrow> (nat \<times> string) list" where
  "name_alternatives names s =
     concat (map (\<lambda>(name, m).
       if py_lower (take (length name) s) = name then [(m, drop (length name) s)] else []) names)"

text \<open>\<^verbatim>\<open>\s+\<close> takes as much white space as there is and gives it back one
  character at a time.\<close>

definition whitespace_alternatives :: "string \<Rightarrow> string list" where
  "whitespace_alternatives s =
     map (\<lambda>k. drop k s) (rev [1 ..< Suc (length (takeWhile py_isspace s))])"

text \<open>What has been read so far: year, month, day, which start as 1900, 1, 1.\<close>

type_synonym found = "nat \<times> nat \<times> nat"

fun match_directive :: "directive \<Rightarrow> found \<Rightarrow> string \<Rightarrow> (found \<times> string) list" where
  "match_directive Dir_d (y, m, d) s = map (\<lambda>(v, r). ((y, m, v), r)) (day_alternatives s)"
| "match_directive Dir_m (y, m, d) s = map (\<lambda>(v, r). ((y, v, d), r)) (month_alternatives s)"
| "match_directive Dir_Y (y, m, d) s = map (\<lambda>(v, r). ((v, m, d), r)) (year_alternatives s)"
| "match_directive Dir_b (y, m, d) s =
     map (\<lambda>(v, r). ((y, v, d), r)) (name_alternatives month_abbreviations s)"
| "match_directive Dir_B (y, m, d) s =
     map (\<lambda>(v, r). ((y, v, d), r)) (name_alternatives month_names s)"
| "match_directive Whitespace acc s = map (\<lambda>r. (acc, r)) (whitespace_alternatives s)"
| "match_directive (Lit c) acc s =
     (case s of x # r \<Rightarrow> if x = c then [(acc, r)] else [] | [] \<Rightarrow> [])"

fun match_format :: "directive list \<Rightarrow> found \<Rightarrow> string \<Rightarrow> (found \<times> string) list" where
  "match_format [] acc s = [(acc, s)]"
| "match_format (t # ts) acc s =
     concat (map (\<lambda>(acc', r). match_format ts acc' r) (match_directive t acc s))"

definition is_leap :: "nat \<Rightarrow> bool" where
  "is_leap y = (y mod 4 = 0 \<and> (y mod 100 \<noteq> 0 \<or> y mod 400 = 0))"

definition days_in_month :: "nat \<Rightarrow> nat \<Rightarrow> nat" where
  "days_in_month y m =
     (if m = 2 then (if is_leap y then 29 else 28)
      else if m = 4 \<or> m = 6 \<or> m = 9 \<or> m = 11 then 30 else 31)"

text \<open>The date has to exist: \<^verbatim>\<open>datetime\<close> accepts the years 1 .. 9999.\<close>

definition valid_date :: "nat \<Rightarrow> nat \<Rightarrow> nat \<Rightarrow> bool" where
  "valid_date y m d =
     (1 \<le> y \<and> y \<le> 9999 \<and> 1 \<le> m \<and> m \<le> 12 \<and> 1 \<le> d \<and> d \<le> days_in_month y m)"

text \<open>\<^verbatim>\<open>datetime.strptime(text, format)\<close>; \<^term>\<open>None\<close> is \<^verbatim>\<open>ValueError\<close>: no match,
  text left after the first match, or a date that does not exist.\<close>

definition strptime :: "string \<Rightarrow> directive list \<Rightarrow> datetime option" where
  "strptime s fmt =
     (case match_format fmt (1900, 1, 1) s of
        [] \<Rightarrow> None
      | ((y, m, d), rest) # _ \<Rightarrow>
          if rest \<noteq> [] then None
          else if valid_date y m d
          then Some \<lparr>dt_year = y, dt_month = m, dt_day = d, dt_hour = 0, dt_minute = 0,
                      dt_second = 0, dt_microsecond = 0\<rparr>
          else None)"

text \<open>\<^verbatim>\<open>["%d-%m-%Y", "%d/%m/%Y", "%Y-%m-%d", "%d %b %Y", "%d %B %Y"]\<close>\<close>

definition date_formats :: "directive list list" where
  "date_formats =
     [[Dir_d, Lit (CHR ''-''), Dir_m, Lit (CHR ''-''), Dir_Y],
      [Dir_d, Lit (CHR ''/''), Dir_m, Lit (CHR ''/''), Dir_Y],
      [Dir_Y, Lit (CHR ''-''), Dir_m, Lit (CHR ''-''), Dir_d],
      [Dir_d, Whitespace, Dir_b, Whitespace, Dir_Y],
      [Dir_d, Whitespace, Dir_B, Whitespace, Dir_Y]]"

text \<open>The loop over the formats: the first format that parses ends it.\<close>

fun try_formats :: "directive list list \<Rightarrow> string \<Rightarrow> datetime option" where
  "try_formats [] s = None"
| "try_formats (fmt # fmts) s =
     (case strptime s fmt of Some parsed \<Rightarrow> Some parsed | None \<Rightarrow> try_formats fmts s)"

text \<open>\<open>now\<close> is the value of \<^verbatim>\<open>datetime.now()\<close> at the call. A value of
  \<^verbatim>\<open>dob\<close> that is true and not a string is rejected by \<^verbatim>\<open>strptime\<close> with
  \<^verbatim>\<open>TypeError\<close>, which the loop does not catch.\<close>

definition validate_dob :: "datetime \<Rightarrow> (string \<times> json) list \<Rightarrow> pyerr + string list" where
  "validate_dob now flds =
     and_then (value_of_field flds ''dob'') (\<lambda>dob.
       if \<not> truthy dob then Inr []
       else case dob of
         JStr s \<Rightarrow>
           Inr (case try_formats date_formats s of
                  None \<Rightarrow> [''Could not parse date of birth: '' @ s]
                | Some parsed_date \<Rightarrow>
                    if datetime_gt parsed_date now
                    then [''Date of birth cannot be in the future'']
                    else if dt_year parsed_date < 1900
                    then [''Date of birth year seems too old'']
                    else [])
       | _ \<Rightarrow> Inl TypeError)"

text \<open>The character class of the pattern of \<^verbatim>\<open>validate_name\<close>: the digits, the
  characters \<^verbatim>\<open>@ # $ % ^ & * ( ) _ + = [ ] { } | < >\<close> and the backslash (U+005C).\<close>

definition suspicious_characters :: string where
  "suspicious_characters = ''0123456789@#$%^&*()_+=[]{}|<>'' @ [CHR 0x5C]"

text \<open>A name that is not a string raises: \<^verbatim>\<open>name.strip()\<close> with \<^verbatim>\<open>AttributeError\<close>
  when the value is true, \<^verbatim>\<open>re.search\<close> with \<^verbatim>\<open>TypeError\<close> when it is false.\<close>

definition validate_name :: "(string \<times> json) list \<Rightarrow> pyerr + string list" where
  "validate_name flds =
     and_then (value_of_field flds ''name'') (\<lambda>name.
     and_then (if \<not> truthy name then Inr True
               else case name of JStr s \<Rightarrow> Inr (length (py_strip s) < 2)
                    | _ \<Rightarrow> Inl AttributeError) (\<lambda>too_short.
     and_then (case name of JStr s \<Rightarrow> Inr (list_ex (\<lambda>c. c \<in> set suspicious_characters) s)
               | _ \<Rightarrow> Inl TypeError) (\<lambda>suspicious.
       Inr ((if too_short then [''Name field is missing or too short''] else [])
            @ (if suspicious then [''Name contains suspicious characters''] else [])))))"

definition validate_fields ::
  "datetime \<Rightarrow> DocumentType \<Rightarrow> (string \<times> json) list \<Rightarrow> pyerr + string list" where
  "validate_fields now doc_type flds =
     and_then (validate_name flds) (\<lambda>name_errors.
     and_then (validate_dob now flds) (\<lambda>dob_errors.
     and_then (if doc_type = AADHAAR then validate_aadhaar flds
               else if doc_type = PAN then validate_pan flds
               else if doc_type = VOTER_ID then validate_voter_id flds
               else Inr []) (\<lambda>type_errors.
       Inr (name_errors @ dob_errors @ type_errors))))"

section \<open>Fraud signals (\<^verbatim>\<open>app/services/fraud.py\<close>)\<close>

text \<open>The argument \<open>er\<close> is the extraction result, a dictionary.\<close>

subsection \<open>\<^verbatim>\<open>check_low_confidence\<close>\<close>

definition low_confidence_signal :: "string \<Rightarrow> FraudSignal" where
  "low_confidence_signal shown =
     \<lparr>signal_type = ''LOW_CONFIDENCE'',
      description = ''Overall extraction confidence is very low ('' @ shown @ '')'',
      severity = ''MEDIUM''\<rparr>"

definition low_field_confidence_signal :: "string \<Rightarrow> string \<Rightarrow> FraudSignal" where
  "low_field_confidence_signal field_name shown =
     \<lparr>signal_type = ''LOW_FIELD_CONFIDENCE'',
      description = ''Field '' @ [CHR 0x27] @ field_name @ [CHR 0x27]
                    @ '' has very low confidence ('' @ shown @ '')'',
      severity = ''LOW''\<rparr>"

text \<open>The body of the loop over \<^verbatim>\<open>fields.items()\<close>, for one item.\<close>

definition field_confidence_check :: "string \<Rightarrow> json \<Rightarrow> pyerr + FraudSignal list" where
  "field_confidence_check field_name field_data =
     (case field_data of
        JObj d \<Rightarrow>
          (let conf = dict_get d ''confidence'' (JInt 0)
           in and_then (json_lt conf (3 / 10)) (\<lambda>low.
                if low
                then and_then (format_2f conf) (\<lambda>shown.
                       Inr [low_field_confidence_signal field_name shown])
                else Inr []))
      | _ \<Rightarrow> Inr [])"

fun field_confidence_loop :: "(string \<times> json) list \<Rightarrow> pyerr + FraudSignal list" where
  "field_confidence_loop [] = Inr []"
| "field_confidence_loop ((field_name, field_data) # rest) =
     and_then (field_confidence_check field_name field_data) (\<lambda>here.
     and_then (field_confidence_loop rest) (\<lambda>there. Inr (here @ there)))"

text \<open>Line 14: \<^verbatim>\<open>extraction_result.get("confidence", 0)\<close>.\<close>

definition fraud_overall_confidence :: "(string \<times> json) list \<Rightarrow> json" where
  "fraud_overall_confidence er = dict_get er ''confidence'' (JInt 0)"

definition check_low_confidence :: "(string \<times> json) list \<Rightarrow> pyerr + FraudSignal list" where
  "check_low_confidence er =
     (let overall = fraud_overall_confidence er
      in and_then (json_lt overall (1 / 2)) (\<lambda>low.
         and_then (if low
                   then and_then (format_2f overall) (\<lambda>shown. Inr [low_confidence_signal shown])
                   else Inr []) (\<lambda>first.
         and_then (py_items (dict_get er ''fields'' (JObj []))) (\<lambda>items.
         and_then (field_confidence_loop items) (\<lambda>more. Inr (first @ more))))))"

subsection \<open>\<^verbatim>\<open>check_field_consistency\<close>\<close>

text \<open>\<^verbatim>\<open>any(p(c) for c in name)\<close> stops at the first element for which \<^verbatim>\<open>p\<close> is
  true; an exception of \<^verbatim>\<open>p\<close> before that ends it.\<close>

fun py_any :: "('a \<Rightarrow> pyerr + bool) \<Rightarrow> 'a list \<Rightarrow> pyerr + bool" where
  "py_any p [] = Inr False"
| "py_any p (x # xs) = and_then (p x) (\<lambda>b. if b then Inr True else py_any p xs)"

text \<open>\<^verbatim>\<open>'\u0900' <= c <= '\u097F'\<close> and \<^verbatim>\<open>'a' <= c.lower() <= 'z'\<close>. When \<^verbatim>\<open>name\<close>
  is a string, \<^verbatim>\<open>c\<close> is one character; when it is a list, \<^verbatim>\<open>c\<close> is an element, and
  one that is not a string cannot be compared with a string (\<^verbatim>\<open>TypeError\<close>) and
  has no \<^verbatim>\<open>lower\<close> (\<^verbatim>\<open>AttributeError\<close>). The characters of a \<^typ>\<open>string\<close> lie below
  U+0100, so no string of the model has a Devanagari character; the comparison is
  kept as the source has it.\<close>

definition in_devanagari :: "json \<Rightarrow> pyerr + bool" where
  "in_devanagari c =
     (case c of
        JStr t \<Rightarrow> Inr (lex_le [0x900] (code_points t) \<and> lex_le (code_points t) [0x97F])
      | _ \<Rightarrow> Inl TypeError)"

definition in_latin :: "json \<Rightarrow> pyerr + bool" where
  "in_latin c =
     (case c of
        JStr t \<Rightarrow> Inr (lex_le (code_points ''a'') (code_points (py_lower t))
                       \<and> lex_le (code_points (py_lower t)) (code_points ''z''))
      | _ \<Rightarrow> Inl AttributeError)"

fun py_len :: "json \<Rightarrow> pyerr + nat" where
  "py_len (JStr s) = Inr (length s)"
| "py_len (JArr xs) = Inr (length xs)"
| "py_len (JObj d) = Inr (length d)"
| "py_len _ = Inl TypeError"

definition mixed_scripts_signal :: FraudSignal where
  "mixed_scripts_signal =
     \<lparr>signal_type = ''MIXED_SCRIPTS'',
      description = ''Name field contains mixed scripts - verify authenticity'',
      severity = ''LOW''\<rparr>"

definition check_field_consistency :: "(string \<times> json) list \<Rightarrow> pyerr + FraudSignal list" where
  "check_field_consistency er =
     and_then (attr_get (dict_get er ''fields'' (JObj [])) ''name'' (JObj [])) (\<lambda>entry.
     and_then (attr_get entry ''value'' (JStr [])) (\<lambda>name.
     and_then (py_iter name) (\<lambda>cs.
     and_then (py_any in_devanagari cs) (\<lambda>has_devanagari.
     and_then (py_any in_latin cs) (\<lambda>has_latin.
       if has_devanagari \<and> has_latin
       then and_then (py_len name) (\<lambda>n. Inr (if n > 20 then [mixed_scripts_signal] else []))
       else Inr [])))))"

subsection \<open>\<^verbatim>\<open>check_issues_from_vlm\<close>\<close>

definition issue_severity :: "string \<Rightarrow> string" where
  "issue_severity issue =
     (if contains ''tamper'' (py_lower issue) \<or> contains ''edit'' (py_lower issue) then ''HIGH''
      else if contains ''blur'' (py_lower issue) \<or> contains ''quality'' (py_lower issue) then ''LOW''
      else ''MEDIUM'')"

text \<open>The body of the loop: an issue that is not a string is skipped.\<close>

definition issue_signal :: "json \<Rightarrow> FraudSignal list" where
  "issue_signal issue =
     (case issue of
        JStr s \<Rightarrow> [\<lparr>signal_type = ''VLM_DETECTED_ISSUE'', description = s,
                     severity = issue_severity s\<rparr>]
      | _ \<Rightarrow> [])"

definition check_issues_from_vlm :: "(string \<times> json) list \<Rightarrow> pyerr + FraudSignal list" where
  "check_issues_from_vlm er =
     and_then (py_iter (dict_get er ''issues'' (JArr []))) (\<lambda>issues.
       Inr (concat (map issue_signal issues)))"

subsection \<open>\<^verbatim>\<open>check_llm_fraud_analysis\<close>\<close>

definition low_validity_signal :: "pyfloat \<Rightarrow> string \<Rightarrow> FraudSignal" where
  "low_validity_signal validity_score reasoning =
     \<lparr>signal_type = ''LOW_VALIDITY_SCORE'',
      description = ''AI Validity Check Failed ('' @ float_2f validity_score @ ''): '' @ reasoning,
      severity = (if float_lt validity_score (4 / 10) then ''HIGH'' else ''MEDIUM'')\<rparr>"

definition visual_anomaly_signal :: FraudSignal where
  "visual_anomaly_signal =
     \<lparr>signal_type = ''VISUAL_ANOMALY'',
      description = ''Document does not appear genuine (visual check failed)'',
      severity = ''HIGH''\<rparr>"

definition suspicious_element_signal :: "string \<Rightarrow> FraudSignal" where
  "suspicious_element_signal element =
     \<lparr>signal_type = ''SUSPICIOUS_ELEMENT'', description = ''Suspicious: '' @ element,
      severity = ''MEDIUM''\<rparr>"

definition alteration_signal :: "string \<Rightarrow> FraudSignal" where
  "alteration_signal alteration =
     \<lparr>signal_type = ''ALTERATION_DETECTED'', description = ''Tampering detected: '' @ alteration,
      severity = ''HIGH''\<rparr>"

text \<open>A \<^verbatim>\<open>fraud_analysis\<close> that is true and not a dictionary raises at the first
  \<^verbatim>\<open>get\<close>.\<close>

definition check_llm_fraud_analysis ::
  "(json \<Rightarrow> string) \<Rightarrow> (string \<times> json) list \<Rightarrow> pyerr + FraudSignal list" where
  "check_llm_fraud_analysis to_text er =
     (let fraud_data = dict_get er ''fraud_analysis'' (JObj [])
      in if \<not> truthy fraud_data then Inr []
         else case fraud_data of
           JObj fd \<Rightarrow>
             and_then (py_float (dict_get fd ''validity_score'' (JFloat (Fin 1)))) (\<lambda>validity_score.
             let score_signals =
                   (if float_lt validity_score (6 / 10)
                    then [low_validity_signal validity_score
                            (py_str to_text
                               (dict_get fd ''reasoning'' (JStr ''Low validity score detected'')))]
                    else []);
                 genuine_signals =
                   (if \<not> truthy (dict_get fd ''is_genuine_appearance'' (JBool True))
                    then [visual_anomaly_signal] else [])
             in and_then (py_iter (dict_get fd ''suspicious_elements'' (JArr []))) (\<lambda>elements.
                and_then (py_iter (dict_get fd ''alterations_detected'' (JArr []))) (\<lambda>alterations.
                  Inr (score_signals @ genuine_signals
                       @ map (\<lambda>e. suspicious_element_signal (py_str to_text e)) elements
                       @ map (\<lambda>a. alteration_signal (py_str to_text a)) alterations))))
         | _ \<Rightarrow> Inl AttributeError)"

subsection \<open>\<^verbatim>\<open>detect_fraud_signals\<close>\<close>

definition detect_fraud_signals ::
  "(json \<Rightarrow> string) \<Rightarrow> (string \<times> json) list \<Rightarrow> pyerr + FraudSignal list" where
  "detect_fraud_signals to_text er =
     and_then (check_low_confidence er) (\<lambda>s1.
     and_then (check_field_consistency er) (\<lambda>s2.
     and_then (check_issues_from_vlm er) (\<lambda>s3.
     and_then (check_llm_fraud_analysis to_text er) (\<lambda>s4.
       Inr (s1 @ s2 @ s3 @ s4)))))"

section \<open>The recommendation policy (\<^verbatim>\<open>pipeline.determine_recommendation\<close>)\<close>

definition determine_recommendation ::
  "string list \<Rightarrow> FraudSignal list \<Rightarrow> json \<Rightarrow> bool \<Rightarrow> pyerr + (Recommendation \<times> string)" where
  "determine_recommendation errors signals conf readable =
     (if \<not> readable then Inr (REVIEW, ''Document is not readable or too low quality'')
      else case filter (\<lambda>s. severity s = ''HIGH'') signals of
        s # _ \<Rightarrow> Inr (REVIEW, ''Potential fraud detected: '' @ description s)
      | [] \<Rightarrow>
        if length errors \<ge> 3
        then Inr (REVIEW, ''Multiple validation issues found (''
                            @ show_nat (length errors) @ '' errors)'')
        else and_then (json_lt conf (6 / 10)) (\<lambda>low.
          if low
          then and_then (format_2f conf) (\<lambda>shown.
                 Inr (REVIEW, ''Low extraction confidence ('' @ shown @ '')''))
          else if errors \<noteq> [] \<or> signals \<noteq> []
          then and_then (json_ge conf (8 / 10)) (\<lambda>high.
                 if high then Inr (APPROVE, ''Minor issues detected but confidence is high'')
                 else Inr (REVIEW, ''Some issues require manual verification''))
          else and_then (json_ge conf (85 / 100)) (\<lambda>very_high.
                 if very_high then Inr (APPROVE, ''All checks passed with high confidence'')
                 else Inr (APPROVE, ''Verification complete with acceptable confidence''))))"

section \<open>The pipeline (\<^verbatim>\<open>pipeline.run_verification_pipeline\<close>)\<close>

text \<open>\<^verbatim>\<open>DocumentType(text)\<close>: the member with that value, or \<^verbatim>\<open>ValueError\<close>.\<close>

definition DocumentType_of :: "string \<Rightarrow> pyerr + DocumentType" where
  "DocumentType_of s =
     (if s = ''aadhaar'' then Inr AADHAAR
      else if s = ''pan'' then Inr PAN
      else if s = ''voter_id'' then Inr VOTER_ID
      else if s = ''driving_license'' then Inr DRIVING_LICENSE
      else if s = ''passport'' then Inr PASSPORT
      else if s = ''birth_certificate'' then Inr BIRTH_CERTIFICATE
      else if s = ''unknown'' then Inr UNKNOWN
      else Inl ValueError)"

text \<open>Lines 83 to 90. The hint is \<^verbatim>\<open>Optional[str]\<close>: \<^verbatim>\<open>None\<close> and the empty string
  are false. Only the branch that reads the extraction result catches
  \<^verbatim>\<open>ValueError\<close>.\<close>

definition resolve_document_type ::
  "string option \<Rightarrow> (string \<times> json) list \<Rightarrow> pyerr + DocumentType" where
  "resolve_document_type document_type_hint er =
     (case document_type_hint of
        Some (c # cs) \<Rightarrow> DocumentType_of (py_lower (c # cs))
      | _ \<Rightarrow>
        (case dict_get er ''document_type'' (JStr ''unknown'') of
           JStr s \<Rightarrow>
             (case DocumentType_of (py_lower s) of
                Inl ValueError \<Rightarrow> Inr UNKNOWN
              | r \<Rightarrow> r)
         | _ \<Rightarrow> Inl AttributeError))"

text \<open>Line 92 and line 93.\<close>

definition pipeline_overall_confidence :: "(string \<times> json) list \<Rightarrow> json" where
  "pipeline_overall_confidence er = dict_get er ''confidence'' (JFloat (Fin (1 / 2)))"

definition pipeline_is_readable :: "(string \<times> json) list \<Rightarrow> json" where
  "pipeline_is_readable er = dict_get er ''is_readable'' (JBool True)"

text \<open>Lines 96 to 105, the conversion of the raw fields: the body of the loop, and
  the loop. The result keeps the order of the items.\<close>

definition normalize_field :: "(json \<Rightarrow> string) \<Rightarrow> json \<Rightarrow> pyerr + ExtractedField" where
  "normalize_field to_text field_data =
     (case field_data of
        JObj d \<Rightarrow>
          and_then (py_float (dict_get d ''confidence'' (JFloat (Fin (1 / 2))))) (\<lambda>c.
            Inr \<lparr>field_value = py_str to_text (dict_get d ''value'' (JStr [])), confidence = c\<rparr>)
      | _ \<Rightarrow> Inr \<lparr>field_value = py_str to_text field_data, confidence = Fin (1 / 2)\<rparr>)"

fun normalize_fields ::
  "(json \<Rightarrow> string) \<Rightarrow> (string \<times> json) list \<Rightarrow> pyerr + (string \<times> ExtractedField) list" where
  "normalize_fields to_text [] = Inr []"
| "normalize_fields to_text ((field_name, field_data) # rest) =
     and_then (normalize_field to_text field_data) (\<lambda>f.
     and_then (normalize_fields to_text rest) (\<lambda>fs. Inr ((field_name, f) # fs)))"

text \<open>The pipeline after the extraction call, whose result is \<open>er\<close>. \<open>now\<close> is the
  clock read by the validator. The schema classes are built from values of the types
  they declare; \<^verbatim>\<open>confidence_score\<close> holds the number read from the extraction
  result as it is, the conversion to \<^verbatim>\<open>float\<close> done by the schema class is not
  modelled.\<close>

definition run_verification_pipeline ::
  "(json \<Rightarrow> string) \<Rightarrow> datetime \<Rightarrow> string \<Rightarrow> string option \<Rightarrow> (string \<times> json) list
     \<Rightarrow> pyerr + VerificationResult" where
  "run_verification_pipeline to_text now req_id document_type_hint er =
     and_then (resolve_document_type document_type_hint er) (\<lambda>doc_type.
     let overall = pipeline_overall_confidence er;
         readable = pipeline_is_readable er;
         raw_fields = dict_get er ''fields'' (JObj [])
     in and_then (py_items raw_fields) (\<lambda>items.
        and_then (normalize_fields to_text items) (\<lambda>flds.
        and_then (validate_fields now doc_type items) (\<lambda>errors.
        and_then (detect_fraud_signals to_text er) (\<lambda>signals.
        and_then (determine_recommendation errors signals overall (truthy readable)) (\<lambda>verdict.
          Inr \<lparr>request_id = req_id,
               document_type = doc_type,
               confidence_score = overall,
               result_fields = flds,
               validation_errors = errors,
               fraud_signals = signals,
               recommendation = fst verdict,
               explanation = snd verdict\<rparr>))))))"

section \<open>Notions used in the statements\<close>

text \<open>An instance of the parameter \<open>to_text\<close> for the examples: the text of \<^verbatim>\<open>None\<close>,
  of a truth value and of an integer. The examples never turn a float, a list or a
  dictionary into text; for these the instance gives the empty text.\<close>

definition simple_text :: "json \<Rightarrow> string" where
  "simple_text v =
     (case v of
        JNull \<Rightarrow> ''None''
      | JBool b \<Rightarrow> (if b then ''True'' else ''False'')
      | JInt i \<Rightarrow> (if i < 0 then ''-'' else []) @ show_nat (nat \<bar>i\<bar>)
      | _ \<Rightarrow> [])"

text \<open>An item of \<^verbatim>\<open>fields\<close> that is a dictionary whose confidence, 0 when the key
  is missing, is below 0.3; the text of that confidence in a signal; a key that is
  absent or holds a float; a value that is a dictionary.\<close>

definition low_entry :: "string \<times> json \<Rightarrow> bool" where
  "low_entry kv =
     (case snd kv of
        JObj d \<Rightarrow> json_lt (dict_get d ''confidence'' (JInt 0)) (3 / 10) = Inr True
      | _ \<Rightarrow> False)"

definition shown_confidence :: "json \<Rightarrow> string" where
  "shown_confidence v =
     (case v of
        JObj d \<Rightarrow> (case format_2f (dict_get d ''confidence'' (JInt 0)) of Inr t \<Rightarrow> t | Inl _ \<Rightarrow> [])
      | _ \<Rightarrow> [])"

definition float_or_absent :: "(string \<times> json) list \<Rightarrow> string \<Rightarrow> bool" where
  "float_or_absent d key = (case map_of d key of None \<Rightarrow> True | Some (JFloat f) \<Rightarrow> True | _ \<Rightarrow> False)"

definition is_dict :: "json \<Rightarrow> bool" where
  "is_dict v = (case v of JObj d \<Rightarrow> True | _ \<Rightarrow> False)"

text \<open>The extraction result of the ordering example of the specification, and the
  type and severity of each signal of a list.\<close>

definition blurry_example :: "(string \<times> json) list" where
  "blurry_example =
     [(''issues'', JArr [JStr ''blurry scan'']),
      (''fraud_analysis'', JObj [(''validity_score'', JFloat (Fin (3 / 10))),
                                 (''is_genuine_appearance'', JBool False)])]"

definition kinds :: "FraudSignal list \<Rightarrow> (string \<times> string) list" where
  "kinds sigs = map (\<lambda>s. (signal_type s, severity s)) sigs"

text \<open>The outcome of the date-of-birth rule for a non-empty text, as the
  specification words it: the first format of the list that parses the text decides;
  then the three errors are tried in their order. \<open>same_day\<close>: two readings of the
  clock on one calendar day. \<open>example_now\<close>: a reading of the clock for the
  examples.\<close>

definition first_format :: "string \<Rightarrow> directive list option" where
  "first_format s = find (\<lambda>fmt. strptime s fmt \<noteq> None) date_formats"

definition dob_errors :: "datetime \<Rightarrow> string \<Rightarrow> string list" where
  "dob_errors now s =
     (case first_format s of
        None \<Rightarrow> [''Could not parse date of birth: '' @ s]
      | Some fmt \<Rightarrow>
          (case strptime s fmt of
             None \<Rightarrow> []
           | Some parsed \<Rightarrow>
               if datetime_gt parsed now then [''Date of birth cannot be in the future'']
               else if dt_year parsed < 1900 then [''Date of birth year seems too old'']
               else []))"

definition same_day :: "datetime \<Rightarrow> datetime \<Rightarrow> bool" where
  "same_day a b = (dt_year a = dt_year b \<and> dt_month a = dt_month b \<and> dt_day a = dt_day b)"

definition example_now :: datetime where
  "example_now = \<lparr>dt_year = 2026, dt_month = 11, dt_day = 4, dt_hour = 9, dt_minute = 30,
                   dt_second = 15, dt_microsecond = 250000\<rparr>"

text \<open>An item of \<^verbatim>\<open>fields\<close> that the normalization accepts: anything that is not a
  dictionary, and a dictionary whose confidence, 0.5 when the key is missing, is
  accepted by \<^verbatim>\<open>float\<close>. A field of the shape the extraction prompt asks for: absent,
  or a dictionary whose value is absent or a string.\<close>

definition convertible_entry :: "json \<Rightarrow> bool" where
  "convertible_entry v =
     (case v of
        JObj d \<Rightarrow> (case py_float (dict_get d ''confidence'' (JFloat (Fin (1 / 2)))) of
                     Inr c \<Rightarrow> True | Inl e \<Rightarrow> False)
      | _ \<Rightarrow> True)"

definition well_shaped :: "(string \<times> json) list \<Rightarrow> string \<Rightarrow> bool" where
  "well_shaped flds key =
     (case map_of flds key of
        None \<Rightarrow> True
      | Some (JObj d) \<Rightarrow>
          (case map_of d ''value'' of None \<Rightarrow> True | Some (JStr s) \<Rightarrow> True | Some _ \<Rightarrow> False)
      | Some _ \<Rightarrow> False)"

text \<open>An extraction result of the expected shape, with one field that arrives as a
  bare scalar and one whose value is a number.\<close>

definition clean_example :: "(string \<times> json) list" where
  "clean_example =
     [(''document_type'', JStr ''Passport''),
      (''confidence'', JFloat (Fin (9 / 10))),
      (''fields'', JObj [(''name'', JObj [(''value'', JStr ''Asha Rao''),
                                          (''confidence'', JFloat (Fin (4 / 5)))]),
                         (''address'', JStr ''12 Hill Road''),
                         (''age'', JObj [(''value'', JInt 42)])])]"

section \<open>Properties\<close>

subsection \<open>Results and exceptions\<close>

lemma and_then_Inl [simp]: "and_then (Inl e) f = Inl e"
  by (simp add: and_then_def)

lemma and_then_Inr [simp]: "and_then (Inr x) f = f x"
  by (simp add: and_then_def)

lemma and_then_eq_Inr: "and_then m f = Inr y \<longleftrightarrow> (\<exists>x. m = Inr x \<and> f x = Inr y)"
  by (cases m) simp_all

lemma show_nat_nonempty: "show_nat n \<noteq> []"
  by (subst show_nat.simps) simp

subsection \<open>The recommendation policy\<close>

lemma determine_recommendation_returned:
  assumes "determine_recommendation errors signals conf readable = Inr (r, e)"
  shows "(r = APPROVE \<or> r = REVIEW) \<and> e \<noteq> []"
  using assms
  by (auto simp: determine_recommendation_def and_then_eq_Inr show_nat_nonempty
           split: if_splits list.splits)

lemma determine_recommendation_float_returns:
  "\<exists>r e. determine_recommendation errors signals (JFloat c) readable = Inr (r, e)"
  by (simp add: determine_recommendation_def split: list.splits)

text \<open>
  \<^bold>\<open>C4.\<close> For all validation errors, fraud signals, overall confidence (a float, the
  special values included) and readability flag, the policy returns, the
  recommendation is APPROVE or REVIEW, never REJECT, and the explanation is not
  empty. The same holds of every result returned for an overall confidence that is
  any other JSON value.
\<close>

theorem recommendation_never_reject:
  "(\<exists>r e. determine_recommendation errors signals (JFloat c) readable = Inr (r, e)
          \<and> (r = APPROVE \<or> r = REVIEW) \<and> e \<noteq> [])
   \<and> (\<forall>conf r e. determine_recommendation errors signals conf readable = Inr (r, e)
          \<longrightarrow> (r = APPROVE \<or> r = REVIEW) \<and> e \<noteq> [])"
  using determine_recommendation_float_returns determine_recommendation_returned by metis

theorem recommendation_never_reject_witness:
  "determine_recommendation [] [] (JFloat (Fin (9 / 10))) True
     = Inr (APPROVE, ''All checks passed with high confidence'')
   \<and> determine_recommendation [''e1'', ''e2'', ''e3''] [] (JFloat NaN) True
     = Inr (REVIEW, ''Multiple validation issues found (3 errors)'')
   \<and> (\<exists>r e. determine_recommendation [''e1''] [] (JFloat NaN) True = Inr (r, e)
          \<and> (r = APPROVE \<or> r = REVIEW) \<and> e \<noteq> [])"
  using recommendation_never_reject [of "[''e1'']" "[]" NaN True]
  by (simp add: determine_recommendation_def show_nat.simps digit_char_def)

text \<open>
  \<^bold>\<open>C7.\<close> Whatever the validation errors, the fraud signals and the overall
  confidence are, a document that is not readable gets REVIEW with the explanation
  that it is not readable or of too low quality.
\<close>

theorem unreadable_is_review:
  "determine_recommendation errors signals conf False
     = Inr (REVIEW, ''Document is not readable or too low quality'')"
  by (simp add: determine_recommendation_def)

theorem unreadable_is_review_witness:
  "determine_recommendation [] [] (JFloat (Fin 1)) False
     = Inr (REVIEW, ''Document is not readable or too low quality'')
   \<and> determine_recommendation [] [] (JFloat (Fin 1)) True
     = Inr (APPROVE, ''All checks passed with high confidence'')"
  using unreadable_is_review [of "[]" "[]" "JFloat (Fin 1)"]
  by (simp add: determine_recommendation_def)

subsection \<open>Aadhaar numbers\<close>

lemma match_classes_replicate:
  "match_classes (replicate n p) s
     = (if n \<le> length s \<and> list_all p (take n s) then Some (drop n s) else None)"
proof (induction n arbitrary: s)
  case 0
  then show ?case by simp
next
  case (Suc n)
  then show ?case by (cases s) auto
qed

lemma line_feed_is_space: "py_isspace (CHR 0x0A)"
  by (simp add: py_isspace_def)

lemma re_match_aadhaar:
  assumes "\<forall>c \<in> set t. \<not> py_isspace c"
  shows "re_match aadhaar_pattern t \<longleftrightarrow> length t = 12 \<and> list_all is_digit t"
proof -
  have no_line_feed: "drop 12 t \<noteq> [CHR 0x0A]"
  proof
    assume "drop 12 t = [CHR 0x0A]"
    then have "CHR 0x0A \<in> set (drop 12 t)" by simp
    then have "CHR 0x0A \<in> set t" by (rule in_set_dropD)
    with assms line_feed_is_space show False by blast
  qed
  show ?thesis
    using no_line_feed
    by (auto simp: re_match_def aadhaar_pattern_def match_classes_replicate at_dollar_def)
qed

lemma value_of_field_entry:
  "value_of_field [(key, JObj [(''value'', v)])] key = Inr v"
  by (simp add: value_of_field_def attr_get_def dict_get_def)

text \<open>
  \<^bold>\<open>C9.\<close> When the value of \<^verbatim>\<open>id_number\<close> is a string, the Aadhaar rule removes
  all white space from it and returns no error when exactly twelve characters are
  left and all are digits, and the one error about 12 digits otherwise.
  \<^verbatim>\<open>"1234 5678 9012"\<close> gives no error; \<^verbatim>\<open>"12345"\<close> gives exactly one error, whose
  text contains \<^verbatim>\<open>12 digits\<close>.
\<close>

theorem aadhaar_twelve_digits:
  "(value_of_field flds ''id_number'' = Inr (JStr s) \<longrightarrow>
      validate_aadhaar flds
        = Inr (if length (filter (\<lambda>c. \<not> py_isspace c) s) = 12
                  \<and> list_all is_digit (filter (\<lambda>c. \<not> py_isspace c) s)
               then [] else [''Aadhaar number must be exactly 12 digits'']))
   \<and> validate_aadhaar [(''id_number'', JObj [(''value'', JStr ''1234 5678 9012'')])] = Inr []
   \<and> validate_aadhaar [(''id_number'', JObj [(''value'', JStr ''12345'')])]
        = Inr [''Aadhaar number must be exactly 12 digits'']
   \<and> contains ''12 digits'' ''Aadhaar number must be exactly 12 digits''"
proof -
  have general: "validate_aadhaar f
        = Inr (if length (filter (\<lambda>c. \<not> py_isspace c) t) = 12
                  \<and> list_all is_digit (filter (\<lambda>c. \<not> py_isspace c) t)
               then [] else [''Aadhaar number must be exactly 12 digits''])"
    if "value_of_field f ''id_number'' = Inr (JStr t)" for f t
    using that re_match_aadhaar [of "filter (\<lambda>c. \<not> py_isspace c) t"]
    by (simp add: validate_aadhaar_def)
  have spaced: "validate_aadhaar [(''id_number'', JObj [(''value'', JStr ''1234 5678 9012'')])] = Inr []"
    by (simp add: general [OF value_of_field_entry] py_isspace_def is_digit_def)
  have short: "validate_aadhaar [(''id_number'', JObj [(''value'', JStr ''12345'')])]
        = Inr [''Aadhaar number must be exactly 12 digits'']"
    by (simp add: general [OF value_of_field_entry] py_isspace_def is_digit_def)
  have mentions: "contains ''12 digits'' ''Aadhaar number must be exactly 12 digits''"
    by simp
  from general spaced short mentions show ?thesis by blast
qed

theorem aadhaar_twelve_digits_witness:
  "value_of_field [(''id_number'', JObj [(''value'', JStr ''12 34 5678 9012 '')])] ''id_number''
     = Inr (JStr ''12 34 5678 9012 '')
   \<and> validate_aadhaar [(''id_number'', JObj [(''value'', JStr ''12 34 5678 9012 '')])] = Inr []"
proof -
  have v: "value_of_field [(''id_number'', JObj [(''value'', JStr ''12 34 5678 9012 '')])]
             ''id_number'' = Inr (JStr ''12 34 5678 9012 '')"
    by (rule value_of_field_entry)
  from aadhaar_twelve_digits
    [of "[(''id_number'', JObj [(''value'', JStr ''12 34 5678 9012 '')])]" "''12 34 5678 9012 ''"] v
  show ?thesis by (simp add: py_isspace_def is_digit_def)
qed

subsection \<open>Field confidence\<close>

lemma float_overflow_pos: "0 < float_overflow"
  by (simp add: float_overflow_def)

lemma field_confidence_check_returned:
  assumes "field_confidence_check k v = Inr out"
  shows "out = (if low_entry (k, v) then [low_field_confidence_signal k (shown_confidence v)] else [])"
proof (cases v)
  case (JObj d)
  obtain low where low: "json_lt (dict_get d ''confidence'' (JInt 0)) (3 / 10) = Inr low"
    using assms JObj by (auto simp: field_confidence_check_def Let_def and_then_eq_Inr)
  show ?thesis
  proof (cases low)
    case True
    then obtain shown where "format_2f (dict_get d ''confidence'' (JInt 0)) = Inr shown"
      using assms JObj low by (auto simp: field_confidence_check_def Let_def and_then_eq_Inr)
    then show ?thesis
      using assms JObj low True
      by (simp add: field_confidence_check_def low_entry_def shown_confidence_def)
  next
    case False
    then show ?thesis
      using assms JObj low by (simp add: field_confidence_check_def low_entry_def)
  qed
qed (use assms in \<open>simp_all add: field_confidence_check_def low_entry_def\<close>)

lemma field_confidence_loop_returned:
  assumes "field_confidence_loop items = Inr out"
  shows "out = map (\<lambda>kv. low_field_confidence_signal (fst kv) (shown_confidence (snd kv)))
                   (filter low_entry items)"
  using assms
proof (induction items arbitrary: out)
  case Nil
  then show ?case by simp
next
  case (Cons kv items)
  obtain k v where kv: "kv = (k, v)" by (cases kv)
  from Cons.prems kv obtain here there
    where here: "field_confidence_check k v = Inr here"
      and there: "field_confidence_loop items = Inr there"
      and out: "out = here @ there"
    by (auto simp: and_then_eq_Inr)
  show ?case
    using field_confidence_check_returned [OF here] Cons.IH [OF there] out kv by simp
qed

lemma check_low_confidence_returned:
  assumes "check_low_confidence er = Inr sigs"
  shows "\<exists>first items. py_items (dict_get er ''fields'' (JObj [])) = Inr items
           \<and> (first = [] \<or> (\<exists>shown. first = [low_confidence_signal shown]))
           \<and> sigs = first @ map (\<lambda>kv. low_field_confidence_signal (fst kv) (shown_confidence (snd kv)))
                                (filter low_entry items)"
proof -
  from assms obtain low first items more
    where "json_lt (dict_get er ''confidence'' (JInt 0)) (1 / 2) = Inr low"
      and first: "(if low then and_then (format_2f (dict_get er ''confidence'' (JInt 0)))
                                 (\<lambda>shown. Inr [low_confidence_signal shown])
                   else Inr []) = Inr first"
      and items: "py_items (dict_get er ''fields'' (JObj [])) = Inr items"
      and more: "field_confidence_loop items = Inr more"
      and sigs: "sigs = first @ more"
    by (auto simp: check_low_confidence_def fraud_overall_confidence_def Let_def and_then_eq_Inr)
  from first have "first = [] \<or> (\<exists>shown. first = [low_confidence_signal shown])"
    by (auto simp: and_then_eq_Inr split: if_splits)
  with items sigs field_confidence_loop_returned [OF more] show ?thesis by blast
qed

lemma field_signals_filter:
  "filter (\<lambda>s. signal_type s = ''LOW_FIELD_CONFIDENCE'')
      (first @ map (\<lambda>kv. low_field_confidence_signal (fst kv) (shown_confidence (snd kv))) xs)
   = map (\<lambda>kv. low_field_confidence_signal (fst kv) (shown_confidence (snd kv))) xs"
  if "first = [] \<or> (\<exists>shown. first = [low_confidence_signal shown])"
  using that
  by (auto simp: low_confidence_signal_def low_field_confidence_signal_def filter_map o_def)

lemma field_confidence_loop_floats:
  assumes "\<forall>kv \<in> set items. \<forall>d. snd kv = JObj d \<longrightarrow> float_or_absent d ''confidence''"
  shows "\<exists>out. field_confidence_loop items = Inr out"
  using assms
proof (induction items)
  case Nil
  then show ?case by simp
next
  case (Cons kv items)
  obtain k v where kv: "kv = (k, v)" by (cases kv)
  have "\<exists>here. field_confidence_check k v = Inr here"
  proof (cases v)
    case (JObj d)
    with Cons.prems kv have "float_or_absent d ''confidence''" by simp
    then show ?thesis
      using JObj
      using float_overflow_pos
      by (auto simp: field_confidence_check_def float_or_absent_def dict_get_def Let_def
               split: option.splits json.splits)
  qed (simp_all add: field_confidence_check_def)
  moreover from Cons have "\<exists>there. field_confidence_loop items = Inr there" by simp
  ultimately show ?case using kv by auto
qed

text \<open>
  \<^bold>\<open>C10.\<close> When \<^verbatim>\<open>check_low_confidence\<close> returns, its signals of type
  \<^verbatim>\<open>LOW_FIELD_CONFIDENCE\<close> are, in the order of the fields, one signal for every item
  that is a dictionary whose confidence (0 when the key is missing) is below 0.3, and
  no other; each has severity LOW. An item that is not a dictionary gives no signal,
  although normalization gives it the confidence 0.5. The check returns whenever the
  confidences it reads are floats or absent.
\<close>

theorem low_field_confidence_signals:
  "(check_low_confidence er = Inr sigs \<longrightarrow>
      (\<exists>items. py_items (dict_get er ''fields'' (JObj [])) = Inr items
         \<and> filter (\<lambda>s. signal_type s = ''LOW_FIELD_CONFIDENCE'') sigs
             = map (\<lambda>kv. low_field_confidence_signal (fst kv) (shown_confidence (snd kv)))
                   (filter low_entry items)))
   \<and> severity (low_field_confidence_signal k shown) = ''LOW''
   \<and> (\<not> is_dict v \<longrightarrow>
        \<not> low_entry (k, v) \<and> field_confidence_check k v = Inr []
        \<and> normalize_field to_text v
            = Inr \<lparr>field_value = py_str to_text v, confidence = Fin (1 / 2)\<rparr>)
   \<and> (float_or_absent er ''confidence''
        \<and> dict_get er ''fields'' (JObj []) = JObj items
        \<and> (\<forall>kv \<in> set items. \<forall>d. snd kv = JObj d \<longrightarrow> float_or_absent d ''confidence'')
        \<longrightarrow> (\<exists>out. check_low_confidence er = Inr out))"
proof -
  have signals: "\<exists>items. py_items (dict_get er ''fields'' (JObj [])) = Inr items
         \<and> filter (\<lambda>s. signal_type s = ''LOW_FIELD_CONFIDENCE'') sigs
             = map (\<lambda>kv. low_field_confidence_signal (fst kv) (shown_confidence (snd kv)))
                   (filter low_entry items)"
    if "check_low_confidence er = Inr sigs"
  proof -
    from check_low_confidence_returned [OF that] obtain first items
      where items: "py_items (dict_get er ''fields'' (JObj [])) = Inr items"
        and first: "first = [] \<or> (\<exists>shown. first = [low_confidence_signal shown])"
        and sigs: "sigs = first @ map (\<lambda>kv. low_field_confidence_signal (fst kv)
                                           (shown_confidence (snd kv)))
                                     (filter low_entry items)"
      by blast
    have "filter (\<lambda>s. signal_type s = ''LOW_FIELD_CONFIDENCE'') sigs
             = map (\<lambda>kv. low_field_confidence_signal (fst kv) (shown_confidence (snd kv)))
                   (filter low_entry items)"
      unfolding sigs by (rule field_signals_filter [OF first])
    with items show ?thesis by blast
  qed
  have low: "severity (low_field_confidence_signal k shown) = ''LOW''"
    by (simp add: low_field_confidence_signal_def)
  have scalar: "\<not> low_entry (k, v) \<and> field_confidence_check k v = Inr []
        \<and> normalize_field to_text v
            = Inr \<lparr>field_value = py_str to_text v, confidence = Fin (1 / 2)\<rparr>"
    if "\<not> is_dict v"
    using that
    by (cases v)
       (simp_all add: is_dict_def low_entry_def field_confidence_check_def normalize_field_def)
  have returns: "\<exists>out. check_low_confidence er = Inr out"
    if a: "float_or_absent er ''confidence''
        \<and> dict_get er ''fields'' (JObj []) = JObj items
        \<and> (\<forall>kv \<in> set items. \<forall>d. snd kv = JObj d \<longrightarrow> float_or_absent d ''confidence'')"
  proof -
    from a obtain out where "field_confidence_loop items = Inr out"
      using field_confidence_loop_floats by blast
    moreover from a have "\<exists>low. json_lt (dict_get er ''confidence'' (JInt 0)) (1 / 2) = Inr low"
      by (auto simp: float_or_absent_def dict_get_def split: option.splits json.splits)
    moreover from a have "\<exists>t. format_2f (dict_get er ''confidence'' (JInt 0)) = Inr t"
      using float_overflow_pos
      by (auto simp: float_or_absent_def dict_get_def split: option.splits json.splits)
    ultimately show ?thesis
      using a
      by (auto simp: check_low_confidence_def fraud_overall_confidence_def Let_def py_items_def)
  qed
  from signals low scalar returns show ?thesis by blast
qed


theorem low_field_confidence_signals_witness:
  "check_low_confidence
     [(''confidence'', JFloat (Fin (9 / 10))),
      (''fields'', JObj [(''name'', JObj [(''value'', JStr ''Asha Rao'')]),
                         (''address'', JStr ''12 Hill Road''),
                         (''dob'', JObj [(''confidence'', JFloat (Fin (29 / 100)))]),
                         (''id_number'', JObj [(''confidence'', JFloat (Fin (3 / 10)))])])]
     = Inr [low_field_confidence_signal ''name'' ''0.00'',
            low_field_confidence_signal ''dob'' ''0.29'']
   \<and> (\<exists>items. py_items (dict_get
          [(''confidence'', JFloat (Fin (9 / 10))),
           (''fields'', JObj [(''name'', JObj [(''value'', JStr ''Asha Rao'')]),
                         (''address'', JStr ''12 Hill Road''),
                         (''dob'', JObj [(''confidence'', JFloat (Fin (29 / 100)))]),
                         (''id_number'', JObj [(''confidence'', JFloat (Fin (3 / 10)))])])]
          ''fields'' (JObj [])) = Inr items
         \<and> filter (\<lambda>s. signal_type s = ''LOW_FIELD_CONFIDENCE'')
               [low_field_confidence_signal ''name'' ''0.00'',
                low_field_confidence_signal ''dob'' ''0.29'']
             = map (\<lambda>kv. low_field_confidence_signal (fst kv) (shown_confidence (snd kv)))
                   (filter low_entry items))
   \<and> filter low_entry
         [(''name'', JObj [(''value'', JStr ''Asha Rao'')]),
          (''address'', JStr ''12 Hill Road''),
          (''dob'', JObj [(''confidence'', JFloat (Fin (29 / 100)))]),
          (''id_number'', JObj [(''confidence'', JFloat (Fin (3 / 10)))])]
       = [(''name'', JObj [(''value'', JStr ''Asha Rao'')]),
          (''dob'', JObj [(''confidence'', JFloat (Fin (29 / 100)))])]
   \<and> float_or_absent [(''value'', JStr ''Asha Rao'')] ''confidence''
   \<and> float_or_absent [(''confidence'', JFloat (Fin (29 / 100)))] ''confidence''
   \<and> \<not> is_dict (JStr ''12 Hill Road'')
   \<and> normalize_field simple_text (JStr ''12 Hill Road'')
       = Inr \<lparr>field_value = ''12 Hill Road'', confidence = Fin (1 / 2)\<rparr>"
proof -
  let ?er = "[(''confidence'', JFloat (Fin (9 / 10))),
      (''fields'', JObj [(''name'', JObj [(''value'', JStr ''Asha Rao'')]),
                         (''address'', JStr ''12 Hill Road''),
                         (''dob'', JObj [(''confidence'', JFloat (Fin (29 / 100)))]),
                         (''id_number'', JObj [(''confidence'', JFloat (Fin (3 / 10)))])])]"
  let ?sigs = "[low_field_confidence_signal ''name'' ''0.00'',
            low_field_confidence_signal ''dob'' ''0.29'']"
  have run: "check_low_confidence ?er = Inr ?sigs"
    by (simp add: check_low_confidence_def fraud_overall_confidence_def dict_get_def py_items_def
          field_confidence_check_def
          fixed2_def round_half_even_def show_nat.simps digit_char_def float_overflow_def)
  have scalar: "\<not> is_dict (JStr ''12 Hill Road'')"
    by (simp add: is_dict_def)
  have low: "filter low_entry
         [(''name'', JObj [(''value'', JStr ''Asha Rao'')]),
          (''address'', JStr ''12 Hill Road''),
          (''dob'', JObj [(''confidence'', JFloat (Fin (29 / 100)))]),
          (''id_number'', JObj [(''confidence'', JFloat (Fin (3 / 10)))])]
       = [(''name'', JObj [(''value'', JStr ''Asha Rao'')]),
          (''dob'', JObj [(''confidence'', JFloat (Fin (29 / 100)))])]"
    by (simp add: low_entry_def dict_get_def)
  have floats: "float_or_absent [(''value'', JStr ''Asha Rao'')] ''confidence''"
    "float_or_absent [(''confidence'', JFloat (Fin (29 / 100)))] ''confidence''"
    by (simp_all add: float_or_absent_def)
  from low_field_confidence_signals
    [of ?er ?sigs "''address''" "''0.00''" "JStr ''12 Hill Road''" simple_text "[]"]
    run scalar low floats
  show ?thesis by (simp add: py_str_def)
qed

subsection \<open>The order of the fraud signals\<close>

lemma detect_fraud_signals_iff:
  "detect_fraud_signals to_text er = Inr sigs \<longleftrightarrow>
     (\<exists>s1 s2 s3 s4. check_low_confidence er = Inr s1 \<and> check_field_consistency er = Inr s2
        \<and> check_issues_from_vlm er = Inr s3 \<and> check_llm_fraud_analysis to_text er = Inr s4
        \<and> sigs = s1 @ s2 @ s3 @ s4)"
  by (auto simp: detect_fraud_signals_def and_then_eq_Inr)

lemma blurry_issues:
  "check_issues_from_vlm ((''confidence'', c) # blurry_example)
     = Inr [\<lparr>signal_type = ''VLM_DETECTED_ISSUE'', description = ''blurry scan'',
             severity = ''LOW''\<rparr>]"
  "check_issues_from_vlm blurry_example
     = Inr [\<lparr>signal_type = ''VLM_DETECTED_ISSUE'', description = ''blurry scan'',
             severity = ''LOW''\<rparr>]"
  by (simp_all add: blurry_example_def check_issues_from_vlm_def dict_get_def issue_signal_def
        issue_severity_def py_lower_def lower_char_def)

lemma blurry_consistency:
  "check_field_consistency ((''confidence'', c) # blurry_example) = Inr []"
  "check_field_consistency blurry_example = Inr []"
  by (simp_all add: blurry_example_def check_field_consistency_def dict_get_def attr_get_def)

lemma blurry_analysis:
  "check_llm_fraud_analysis to_text ((''confidence'', c) # blurry_example)
     = Inr [low_validity_signal (Fin (3 / 10)) ''Low validity score detected'',
            visual_anomaly_signal]"
  "check_llm_fraud_analysis to_text blurry_example
     = Inr [low_validity_signal (Fin (3 / 10)) ''Low validity score detected'',
            visual_anomaly_signal]"
  by (simp_all add: blurry_example_def check_llm_fraud_analysis_def dict_get_def py_str_def)

lemma blurry_confidence_absent:
  "check_low_confidence blurry_example = Inr [low_confidence_signal ''0.00'']"
  by (simp add: blurry_example_def check_low_confidence_def fraud_overall_confidence_def
        dict_get_def py_items_def float_overflow_def fixed2_def round_half_even_def
        show_nat.simps digit_char_def)

lemma blurry_confidence_present:
  "\<not> float_lt c (1 / 2) \<Longrightarrow>
     check_low_confidence ((''confidence'', JFloat c) # blurry_example) = Inr []"
  by (simp add: blurry_example_def check_low_confidence_def fraud_overall_confidence_def
        dict_get_def py_items_def)

lemma kinds_low_validity:
  "kinds [low_validity_signal (Fin (3 / 10)) r, visual_anomaly_signal]
     = [(''LOW_VALIDITY_SCORE'', ''HIGH''), (''VISUAL_ANOMALY'', ''HIGH'')]"
  by (simp add: kinds_def low_validity_signal_def visual_anomaly_signal_def)

text \<open>
  \<^bold>\<open>C6\<close> (as amended). The aggregate returns exactly when its four checks return, and
  then its result is the result of the confidence check, followed by that of the
  script-consistency check, that of the model-reported issues and that of the forensic
  analysis. For \<^verbatim>\<open>issues=["blurry scan"]\<close> and
  \<^verbatim>\<open>fraud_analysis={validity_score: 0.3, is_genuine_appearance: false}\<close> together with
  an overall confidence that is not below 0.5, the signals are
  \<^verbatim>\<open>VLM_DETECTED_ISSUE\<close> (LOW), \<^verbatim>\<open>LOW_VALIDITY_SCORE\<close> (HIGH), \<^verbatim>\<open>VISUAL_ANOMALY\<close>
  (HIGH), in this order. Without the key \<^verbatim>\<open>confidence\<close> the confidence check reads 0
  and a \<^verbatim>\<open>LOW_CONFIDENCE\<close> (MEDIUM) signal comes first.
\<close>

theorem fraud_signals_in_check_order:
  "(detect_fraud_signals to_text er = Inr sigs \<longleftrightarrow>
     (\<exists>s1 s2 s3 s4. check_low_confidence er = Inr s1 \<and> check_field_consistency er = Inr s2
        \<and> check_issues_from_vlm er = Inr s3 \<and> check_llm_fraud_analysis to_text er = Inr s4
        \<and> sigs = s1 @ s2 @ s3 @ s4))
   \<and> (\<not> float_lt c (1 / 2) \<longrightarrow>
        (\<exists>out. detect_fraud_signals to_text ((''confidence'', JFloat c) # blurry_example) = Inr out
           \<and> kinds out = [(''VLM_DETECTED_ISSUE'', ''LOW''), (''LOW_VALIDITY_SCORE'', ''HIGH''),
                          (''VISUAL_ANOMALY'', ''HIGH'')]))
   \<and> (\<exists>out. detect_fraud_signals to_text blurry_example = Inr out
          \<and> kinds out = [(''LOW_CONFIDENCE'', ''MEDIUM''), (''VLM_DETECTED_ISSUE'', ''LOW''),
                         (''LOW_VALIDITY_SCORE'', ''HIGH''), (''VISUAL_ANOMALY'', ''HIGH'')])"
proof -
  have present:
    "\<exists>out. detect_fraud_signals to_text ((''confidence'', JFloat c) # blurry_example) = Inr out
           \<and> kinds out = [(''VLM_DETECTED_ISSUE'', ''LOW''), (''LOW_VALIDITY_SCORE'', ''HIGH''),
                          (''VISUAL_ANOMALY'', ''HIGH'')]"
    if "\<not> float_lt c (1 / 2)"
    using blurry_confidence_present [OF that] kinds_low_validity
    by (simp add: detect_fraud_signals_def blurry_issues blurry_consistency blurry_analysis
          kinds_def)
  have absent: "\<exists>out. detect_fraud_signals to_text blurry_example = Inr out
          \<and> kinds out = [(''LOW_CONFIDENCE'', ''MEDIUM''), (''VLM_DETECTED_ISSUE'', ''LOW''),
                         (''LOW_VALIDITY_SCORE'', ''HIGH''), (''VISUAL_ANOMALY'', ''HIGH'')]"
    using kinds_low_validity
    by (simp add: detect_fraud_signals_def blurry_issues blurry_consistency blurry_analysis
          blurry_confidence_absent kinds_def low_confidence_signal_def)
  from detect_fraud_signals_iff present absent show ?thesis by blast
qed

theorem fraud_signals_in_check_order_witness:
  "\<not> float_lt (Fin (9 / 10)) (1 / 2)
   \<and> (\<exists>out. detect_fraud_signals simple_text
               ((''confidence'', JFloat (Fin (9 / 10))) # blurry_example) = Inr out
           \<and> kinds out = [(''VLM_DETECTED_ISSUE'', ''LOW''), (''LOW_VALIDITY_SCORE'', ''HIGH''),
                          (''VISUAL_ANOMALY'', ''HIGH'')])"
  using fraud_signals_in_check_order [of simple_text "[]" "[]" "Fin (9 / 10)"]
  by simp

text \<open>The example as the specification gives it, with no overall confidence: four
  signals, not three.\<close>

theorem fraud_signals_example_counterexample:
  "detect_fraud_signals simple_text
     [(''issues'', JArr [JStr ''blurry scan'']),
      (''fraud_analysis'', JObj [(''validity_score'', JFloat (Fin (3 / 10))),
                                 (''is_genuine_appearance'', JBool False)])]
   = Inr [\<lparr>signal_type = ''LOW_CONFIDENCE'',
            description = ''Overall extraction confidence is very low (0.00)'',
            severity = ''MEDIUM''\<rparr>,
          \<lparr>signal_type = ''VLM_DETECTED_ISSUE'', description = ''blurry scan'',
            severity = ''LOW''\<rparr>,
          \<lparr>signal_type = ''LOW_VALIDITY_SCORE'',
            description = ''AI Validity Check Failed (0.30): Low validity score detected'',
            severity = ''HIGH''\<rparr>,
          \<lparr>signal_type = ''VISUAL_ANOMALY'',
            description = ''Document does not appear genuine (visual check failed)'',
            severity = ''HIGH''\<rparr>]"
  using blurry_issues(2) blurry_consistency(2) blurry_analysis(2) [of simple_text]
    blurry_confidence_absent
  by (simp add: detect_fraud_signals_def blurry_example_def low_confidence_signal_def
        low_validity_signal_def visual_anomaly_signal_def fixed2_def round_half_even_def
        show_nat.simps digit_char_def)

subsection \<open>The date of birth\<close>

lemma try_formats_find:
  "try_formats fmts s
     = (case find (\<lambda>fmt. strptime s fmt \<noteq> None) fmts of None \<Rightarrow> None | Some fmt \<Rightarrow> strptime s fmt)"
  by (induction fmts) (auto split: option.splits)

lemma first_format_parses:
  assumes "first_format s = Some fmt"
  shows "\<exists>parsed. strptime s fmt = Some parsed"
  using assms by (auto simp: first_format_def find_Some_iff)

lemma dob_errors_try_formats:
  "dob_errors now s
     = (case try_formats date_formats s of
          None \<Rightarrow> [''Could not parse date of birth: '' @ s]
        | Some parsed \<Rightarrow>
            if datetime_gt parsed now then [''Date of birth cannot be in the future'']
            else if dt_year parsed < 1900 then [''Date of birth year seems too old'']
            else [])"
proof (cases "first_format s")
  case None
  then show ?thesis
    by (simp add: dob_errors_def try_formats_find first_format_def)
next
  case (Some fmt)
  from first_format_parses [OF Some] obtain parsed where "strptime s fmt = Some parsed" ..
  with Some show ?thesis
    by (simp add: dob_errors_def try_formats_find first_format_def)
qed

lemma validate_dob_string:
  assumes "value_of_field flds ''dob'' = Inr (JStr s)" and "s \<noteq> []"
  shows "validate_dob now flds = Inr (dob_errors now s)"
  using assms by (simp add: validate_dob_def dob_errors_try_formats)

lemma validate_dob_empty:
  assumes "value_of_field flds ''dob'' = Inr v" and "\<not> truthy v"
  shows "validate_dob now flds = Inr []"
  using assms by (simp add: validate_dob_def)

lemma dob_errors_at_most_one: "length (dob_errors now s) \<le> 1"
  by (simp add: dob_errors_def split: option.splits)

lemma validate_dob_at_most_one:
  assumes "validate_dob now flds = Inr errs"
  shows "length errs \<le> 1"
proof -
  from assms obtain v where v: "value_of_field flds ''dob'' = Inr v"
    by (auto simp: validate_dob_def and_then_eq_Inr)
  show ?thesis
  proof (cases "truthy v")
    case False
    with v assms show ?thesis by (simp add: validate_dob_def)
  next
    case True
    with v assms obtain s where "v = JStr s" "s \<noteq> []"
      by (cases v) (auto simp: validate_dob_def)
    with v assms validate_dob_string [of flds s now] dob_errors_at_most_one [of now s]
    show ?thesis by simp
  qed
qed

lemma lex_less_irrefl: "\<not> lex_less xs xs"
  by (induction xs) auto

text \<open>
  \<^bold>\<open>C8.\<close> When the value of \<^verbatim>\<open>dob\<close> is empty (or any other false value), the
  date-of-birth rule returns no error. When it is a non-empty string, the result is
  \<open>dob_errors\<close>: the text is parsed with the first of the five formats, in their
  order, that accepts it, and the result is the one error that it cannot be parsed
  when none does, else the one error that the date is in the future when the parsed
  date is after now, else the one error that the year is too old when it is before
  1900, else no error. A result never has more than one error, and "after" is strict.
\<close>

theorem dob_outcomes:
  "(value_of_field flds ''dob'' = Inr v \<and> \<not> truthy v \<longrightarrow> validate_dob now flds = Inr [])
   \<and> (value_of_field flds ''dob'' = Inr (JStr s) \<and> s \<noteq> [] \<longrightarrow>
        validate_dob now flds = Inr (dob_errors now s))
   \<and> (validate_dob now flds = Inr errs \<longrightarrow> length errs \<le> 1)
   \<and> \<not> datetime_gt now now"
  using validate_dob_empty validate_dob_string validate_dob_at_most_one
  by (simp add: datetime_gt_def lex_less_irrefl)


lemmas strptime_eval =
  strptime_def day_alternatives_def month_alternatives_def year_alternatives_def
  name_alternatives_def whitespace_alternatives_def month_abbreviations_def month_names_def
  valid_date_def days_in_month_def is_leap_def is_digit_def is_1_9_def digit_val_def
  nat_of_digits_def py_isspace_def py_lower_def lower_char_def date_formats_def

lemma parse_15_08_1947:
  "try_formats date_formats ''15-08-1947''
     = Some \<lparr>dt_year = 1947, dt_month = 8, dt_day = 15, dt_hour = 0, dt_minute = 0,
                dt_second = 0, dt_microsecond = 0\<rparr>"
  "try_formats date_formats ''15/08/1947''
     = Some \<lparr>dt_year = 1947, dt_month = 8, dt_day = 15, dt_hour = 0, dt_minute = 0,
                dt_second = 0, dt_microsecond = 0\<rparr>"
  "try_formats date_formats ''1947-08-15''
     = Some \<lparr>dt_year = 1947, dt_month = 8, dt_day = 15, dt_hour = 0, dt_minute = 0,
                dt_second = 0, dt_microsecond = 0\<rparr>"
  "try_formats date_formats ''15 Aug 1947''
     = Some \<lparr>dt_year = 1947, dt_month = 8, dt_day = 15, dt_hour = 0, dt_minute = 0,
                dt_second = 0, dt_microsecond = 0\<rparr>"
  "try_formats date_formats ''15 August 1947''
     = Some \<lparr>dt_year = 1947, dt_month = 8, dt_day = 15, dt_hour = 0, dt_minute = 0,
                dt_second = 0, dt_microsecond = 0\<rparr>"
  by (simp_all add: strptime_eval char_of_def bit_0)

lemma parse_other_dates:
  "try_formats date_formats ''05-11-2026''
     = Some \<lparr>dt_year = 2026, dt_month = 11, dt_day = 5, dt_hour = 0, dt_minute = 0,
                dt_second = 0, dt_microsecond = 0\<rparr>"
  "try_formats date_formats ''04-11-2026''
     = Some \<lparr>dt_year = 2026, dt_month = 11, dt_day = 4, dt_hour = 0, dt_minute = 0,
                dt_second = 0, dt_microsecond = 0\<rparr>"
  "try_formats date_formats ''31-12-1899''
     = Some \<lparr>dt_year = 1899, dt_month = 12, dt_day = 31, dt_hour = 0, dt_minute = 0,
                dt_second = 0, dt_microsecond = 0\<rparr>"
  "try_formats date_formats ''31-02-2000'' = None"
  by (simp_all add: strptime_eval)

lemma first_format_month_name:
  "first_format ''15 August 1947'' = Some [Dir_d, Whitespace, Dir_B, Whitespace, Dir_Y]"
  by (simp add: first_format_def strptime_eval char_of_def bit_0)

theorem dob_outcomes_witness:
  "value_of_field [(''dob'', JObj [(''value'', JStr ''15-08-1947'')])] ''dob''
     = Inr (JStr ''15-08-1947'')
   \<and> validate_dob example_now [(''dob'', JObj [(''value'', JStr ''15-08-1947'')])] = Inr []
   \<and> value_of_field [(''dob'', JObj [(''value'', JStr [])])] ''dob'' = Inr (JStr [])
   \<and> \<not> truthy (JStr [])
   \<and> validate_dob example_now [(''dob'', JObj [(''value'', JStr [])])] = Inr []
   \<and> dob_errors example_now ''15/08/1947'' = []
   \<and> dob_errors example_now ''1947-08-15'' = []
   \<and> dob_errors example_now ''15 Aug 1947'' = []
   \<and> dob_errors example_now ''15 August 1947'' = []
   \<and> first_format ''15 August 1947'' = Some [Dir_d, Whitespace, Dir_B, Whitespace, Dir_Y]
   \<and> dob_errors example_now ''04-11-2026'' = []
   \<and> dob_errors example_now ''05-11-2026'' = [''Date of birth cannot be in the future'']
   \<and> dob_errors example_now ''31-12-1899'' = [''Date of birth year seems too old'']
   \<and> dob_errors example_now ''31-02-2000'' = [''Could not parse date of birth: 31-02-2000'']"
  using dob_outcomes [of "[(''dob'', JObj [(''value'', JStr ''15-08-1947'')])]" JNull example_now
      "''15-08-1947''" "[]"]
    dob_outcomes [of "[(''dob'', JObj [(''value'', JStr [])])]" "JStr []" example_now]
  by (simp add: value_of_field_entry dob_errors_try_formats parse_15_08_1947 parse_other_dates
        first_format_month_name datetime_gt_def example_now_def)

subsection \<open>The clock\<close>

lemma strptime_midnight:
  assumes "strptime s fmt = Some parsed"
  shows "dt_hour parsed = 0 \<and> dt_minute parsed = 0 \<and> dt_second parsed = 0
         \<and> dt_microsecond parsed = 0"
  using assms by (auto simp: strptime_def split: list.splits if_splits prod.splits)

lemma try_formats_midnight:
  assumes "try_formats fmts s = Some parsed"
  shows "dt_hour parsed = 0 \<and> dt_minute parsed = 0 \<and> dt_second parsed = 0
         \<and> dt_microsecond parsed = 0"
  using assms
proof (induction fmts)
  case Nil
  then show ?case by simp
next
  case (Cons fmt fmts)
  then show ?case
    using strptime_midnight [of s fmt parsed] by (auto split: option.splits)
qed

lemma datetime_gt_same_day:
  assumes "same_day a b"
    and "dt_hour parsed = 0 \<and> dt_minute parsed = 0 \<and> dt_second parsed = 0
         \<and> dt_microsecond parsed = 0"
  shows "datetime_gt parsed a = datetime_gt parsed b"
  using assms by (auto simp: same_day_def datetime_gt_def)

lemma validate_dob_clock:
  assumes "\<forall>s parsed. value_of_field flds ''dob'' = Inr (JStr s)
              \<and> try_formats date_formats s = Some parsed
              \<longrightarrow> datetime_gt parsed now1 = datetime_gt parsed now2"
  shows "validate_dob now1 flds = validate_dob now2 flds"
proof (cases "value_of_field flds ''dob''")
  case (Inl e)
  then show ?thesis by (simp add: validate_dob_def)
next
  case (Inr v)
  show ?thesis
  proof (cases v)
    case (JStr s)
    show ?thesis
    proof (cases "try_formats date_formats s")
      case None
      with Inr JStr show ?thesis by (simp add: validate_dob_def)
    next
      case (Some parsed)
      with assms Inr JStr have "datetime_gt parsed now1 = datetime_gt parsed now2" by blast
      with Inr JStr Some show ?thesis by (simp add: validate_dob_def)
    qed
  qed (use Inr in \<open>simp_all add: validate_dob_def\<close>)
qed

text \<open>
  \<^bold>\<open>C5\<close> (as amended). The recommendation policy and the fraud aggregate are
  functions of their arguments alone. The validation also reads the clock: its result
  is a function of its arguments and of the reading \<open>now\<close>, and two readings give the
  same result whenever the parsed date of birth is after both or after neither; in
  particular whenever the two readings fall on the same day.
\<close>

theorem validation_depends_on_clock_date:
  "((\<forall>s parsed. value_of_field flds ''dob'' = Inr (JStr s)
        \<and> try_formats date_formats s = Some parsed
        \<longrightarrow> datetime_gt parsed now1 = datetime_gt parsed now2)
      \<longrightarrow> validate_fields now1 doc_type flds = validate_fields now2 doc_type flds)
   \<and> (same_day now1 now2
      \<longrightarrow> validate_fields now1 doc_type flds = validate_fields now2 doc_type flds)"
proof -
  have general: "validate_fields now1 doc_type flds = validate_fields now2 doc_type flds"
    if "\<forall>s parsed. value_of_field flds ''dob'' = Inr (JStr s)
        \<and> try_formats date_formats s = Some parsed
        \<longrightarrow> datetime_gt parsed now1 = datetime_gt parsed now2"
    using validate_dob_clock [OF that] by (simp add: validate_fields_def)
  have day: "validate_fields now1 doc_type flds = validate_fields now2 doc_type flds"
    if "same_day now1 now2"
  proof (rule general, intro allI impI)
    fix s parsed
    assume "value_of_field flds ''dob'' = Inr (JStr s)
        \<and> try_formats date_formats s = Some parsed"
    then have "dt_hour parsed = 0 \<and> dt_minute parsed = 0 \<and> dt_second parsed = 0
         \<and> dt_microsecond parsed = 0"
      using try_formats_midnight by blast
    with that show "datetime_gt parsed now1 = datetime_gt parsed now2"
      by (rule datetime_gt_same_day)
  qed
  from general day show ?thesis by blast
qed

theorem validation_depends_on_clock_date_witness:
  "same_day example_now (example_now\<lparr>dt_hour := 23, dt_minute := 59\<rparr>)
   \<and> example_now \<noteq> example_now\<lparr>dt_hour := 23, dt_minute := 59\<rparr>
   \<and> try_formats date_formats ''05-11-2026''
       = Some \<lparr>dt_year = 2026, dt_month = 11, dt_day = 5, dt_hour = 0, dt_minute = 0,
                 dt_second = 0, dt_microsecond = 0\<rparr>
   \<and> datetime_gt \<lparr>dt_year = 2026, dt_month = 11, dt_day = 5, dt_hour = 0, dt_minute = 0,
                    dt_second = 0, dt_microsecond = 0\<rparr> example_now
   \<and> datetime_gt \<lparr>dt_year = 2026, dt_month = 11, dt_day = 5, dt_hour = 0, dt_minute = 0,
                    dt_second = 0, dt_microsecond = 0\<rparr>
         (example_now\<lparr>dt_hour := 23, dt_minute := 59\<rparr>)
   \<and> validate_fields example_now AADHAAR
         [(''name'', JObj [(''value'', JStr ''Asha Rao'')]),
          (''dob'', JObj [(''value'', JStr ''05-11-2026'')]),
          (''id_number'', JObj [(''value'', JStr ''1234 5678 9012'')])]
       = validate_fields (example_now\<lparr>dt_hour := 23, dt_minute := 59\<rparr>) AADHAAR
         [(''name'', JObj [(''value'', JStr ''Asha Rao'')]),
          (''dob'', JObj [(''value'', JStr ''05-11-2026'')]),
          (''id_number'', JObj [(''value'', JStr ''1234 5678 9012'')])]"
proof -
  have day: "same_day example_now (example_now\<lparr>dt_hour := 23, dt_minute := 59\<rparr>)"
    by (simp add: same_day_def)
  have other: "example_now \<noteq> example_now\<lparr>dt_hour := 23, dt_minute := 59\<rparr>"
    by (simp add: example_now_def)
  have future:
    "datetime_gt \<lparr>dt_year = 2026, dt_month = 11, dt_day = 5, dt_hour = 0, dt_minute = 0,
                    dt_second = 0, dt_microsecond = 0\<rparr> example_now"
    "datetime_gt \<lparr>dt_year = 2026, dt_month = 11, dt_day = 5, dt_hour = 0, dt_minute = 0,
                    dt_second = 0, dt_microsecond = 0\<rparr>
         (example_now\<lparr>dt_hour := 23, dt_minute := 59\<rparr>)"
    by (simp_all add: datetime_gt_def example_now_def)
  from validation_depends_on_clock_date
    [of "[(''name'', JObj [(''value'', JStr ''Asha Rao'')]),
          (''dob'', JObj [(''value'', JStr ''05-11-2026'')]),
          (''id_number'', JObj [(''value'', JStr ''1234 5678 9012'')])]"
        example_now "example_now\<lparr>dt_hour := 23, dt_minute := 59\<rparr>" AADHAAR]
    day other future parse_other_dates(1)
  show ?thesis by blast
qed

text \<open>The same fields validated at two readings of the clock, one microsecond apart:
  before midnight the date of birth is in the future, at midnight it is not.\<close>

theorem validation_not_pure_counterexample:
  "validate_fields
     \<lparr>dt_year = 2026, dt_month = 11, dt_day = 4, dt_hour = 23, dt_minute = 59,
      dt_second = 59, dt_microsecond = 999999\<rparr> UNKNOWN
     [(''name'', JObj [(''value'', JStr ''Asha Rao'')]),
      (''dob'', JObj [(''value'', JStr ''05-11-2026'')])]
   = Inr [''Date of birth cannot be in the future'']
   \<and> validate_fields
     \<lparr>dt_year = 2026, dt_month = 11, dt_day = 5, dt_hour = 0, dt_minute = 0,
      dt_second = 0, dt_microsecond = 0\<rparr> UNKNOWN
     [(''name'', JObj [(''value'', JStr ''Asha Rao'')]),
      (''dob'', JObj [(''value'', JStr ''05-11-2026'')])]
   = Inr []"
  by (simp add: validate_fields_def validate_name_def validate_dob_def value_of_field_def
        attr_get_def dict_get_def py_strip_def strip_with_def py_isspace_def
        suspicious_characters_def parse_other_dates datetime_gt_def)

subsection \<open>The document type\<close>

lemma DocumentType_of_error:
  assumes "DocumentType_of s = Inl e"
  shows "e = ValueError"
  using assms by (simp add: DocumentType_of_def split: if_splits)

lemma resolve_without_hint:
  assumes "hint = None \<or> hint = Some []"
    and "map_of er ''document_type'' = None \<or> (\<exists>s. map_of er ''document_type'' = Some (JStr s))"
  shows "\<exists>t. resolve_document_type hint er = Inr t"
proof -
  obtain s where s: "dict_get er ''document_type'' (JStr ''unknown'') = JStr s"
    using assms(2) by (auto simp: dict_get_def)
  have "\<exists>t. (case DocumentType_of (py_lower s) of Inl ValueError \<Rightarrow> Inr UNKNOWN | r \<Rightarrow> r) = Inr t"
  proof (cases "DocumentType_of (py_lower s)")
    case (Inl e)
    with DocumentType_of_error [OF Inl] show ?thesis by simp
  next
    case (Inr t)
    then show ?thesis by simp
  qed
  with assms(1) s show ?thesis by (auto simp: resolve_document_type_def)
qed

lemma foo_is_no_type: "DocumentType_of (py_lower ''foo'') = Inl ValueError"
  by (simp add: DocumentType_of_def py_lower_def lower_char_def)

text \<open>
  \<^bold>\<open>C1.\<close> The resolution of the document type can raise: the branch of the explicit
  hint calls \<^verbatim>\<open>DocumentType\<close> outside the \<^verbatim>\<open>try\<close> that guards the other branch. The
  hint \<^verbatim>\<open>foo\<close> raises \<^verbatim>\<open>ValueError\<close>, in the resolution and hence in the pipeline,
  for every extraction result; the same text read from the extraction result resolves
  to \<^verbatim>\<open>unknown\<close>. Without a hint, a document type that is missing or is any string
  never raises.
\<close>

theorem unknown_hint_raises:
  "resolve_document_type (Some ''foo'') er = Inl ValueError
   \<and> run_verification_pipeline to_text now rid (Some ''foo'') er = Inl ValueError
   \<and> resolve_document_type None [(''document_type'', JStr ''foo'')] = Inr UNKNOWN
   \<and> ((hint = None \<or> hint = Some [])
        \<and> (map_of er ''document_type'' = None
            \<or> (\<exists>s. map_of er ''document_type'' = Some (JStr s)))
      \<longrightarrow> (\<exists>t. resolve_document_type hint er = Inr t))"
proof -
  have hint: "resolve_document_type (Some ''foo'') er = Inl ValueError"
    using foo_is_no_type by (simp add: resolve_document_type_def)
  then have run: "run_verification_pipeline to_text now rid (Some ''foo'') er = Inl ValueError"
    by (simp add: run_verification_pipeline_def)
  have sibling: "resolve_document_type None [(''document_type'', JStr ''foo'')] = Inr UNKNOWN"
    using foo_is_no_type by (simp add: resolve_document_type_def dict_get_def)
  from hint run sibling resolve_without_hint show ?thesis by blast
qed

theorem unknown_hint_raises_witness:
  "resolve_document_type (Some ''foo'') [(''document_type'', JStr ''pan'')] = Inl ValueError
   \<and> resolve_document_type None [(''document_type'', JStr ''pan'')] = Inr PAN
   \<and> resolve_document_type (Some ''PAN'') [] = Inr PAN"
  using unknown_hint_raises [of "[(''document_type'', JStr ''pan'')]" simple_text example_now "''r''" None]
  by (simp add: resolve_document_type_def dict_get_def DocumentType_of_def py_lower_def
        lower_char_def char_of_def bit_0)


subsection \<open>The pipeline\<close>

lemma run_verification_pipeline_returned:
  assumes "run_verification_pipeline to_text now rid hint er = Inr res"
  shows "\<exists>doc_type items flds.
           resolve_document_type hint er = Inr doc_type
           \<and> py_items (dict_get er ''fields'' (JObj [])) = Inr items
           \<and> normalize_fields to_text items = Inr flds
           \<and> validate_fields now doc_type items = Inr (validation_errors res)
           \<and> detect_fraud_signals to_text er = Inr (fraud_signals res)
           \<and> determine_recommendation (validation_errors res) (fraud_signals res)
                 (pipeline_overall_confidence er) (truthy (pipeline_is_readable er))
               = Inr (recommendation res, explanation res)
           \<and> confidence_score res = pipeline_overall_confidence er
           \<and> document_type res = doc_type \<and> result_fields res = flds
           \<and> request_id res = rid"
  using assms
  by (auto simp: run_verification_pipeline_def Let_def and_then_eq_Inr)

subsection \<open>The default of the overall confidence\<close>

lemma zero_shown: "format_2f (JInt 0) = Inr ''0.00''"
  by (simp add: float_overflow_def fixed2_def round_half_even_def show_nat.simps digit_char_def)

lemma check_low_confidence_absent:
  assumes "map_of er ''confidence'' = None" and "check_low_confidence er = Inr sigs"
  shows "\<exists>rest. sigs = low_confidence_signal ''0.00'' # rest"
  using assms
  by (auto simp: check_low_confidence_def fraud_overall_confidence_def dict_get_def Let_def
                 and_then_eq_Inr zero_shown
           simp del: format_2f.simps)

text \<open>
  \<^bold>\<open>C3\<close> (as amended). When the key \<^verbatim>\<open>confidence\<close> is absent, the two places that
  read it use different defaults. The low-confidence check of the fraud aggregate
  reads 0, so every result of it starts with the \<^verbatim>\<open>LOW_CONFIDENCE\<close> signal for 0.00.
  The pipeline reads 0.5: this is the overall confidence the recommendation policy is
  called with, and the \<^verbatim>\<open>confidence_score\<close> of the result.
\<close>

theorem absent_confidence_defaults:
  "map_of er ''confidence'' = None \<longrightarrow>
     fraud_overall_confidence er = JInt 0
     \<and> pipeline_overall_confidence er = JFloat (Fin (1 / 2))
     \<and> (check_low_confidence er = Inr sigs
          \<longrightarrow> (\<exists>rest. sigs = low_confidence_signal ''0.00'' # rest))
     \<and> (run_verification_pipeline to_text now rid hint er = Inr res \<longrightarrow>
          confidence_score res = JFloat (Fin (1 / 2))
          \<and> determine_recommendation (validation_errors res) (fraud_signals res)
                (JFloat (Fin (1 / 2))) (truthy (pipeline_is_readable er))
              = Inr (recommendation res, explanation res)
          \<and> (\<exists>rest. fraud_signals res = low_confidence_signal ''0.00'' # rest))"
proof
  assume absent: "map_of er ''confidence'' = None"
  have fraud: "fraud_overall_confidence er = JInt 0"
    using absent by (simp add: fraud_overall_confidence_def dict_get_def)
  have pipe: "pipeline_overall_confidence er = JFloat (Fin (1 / 2))"
    using absent by (simp add: pipeline_overall_confidence_def dict_get_def)
  have check: "\<exists>rest. sigs = low_confidence_signal ''0.00'' # rest"
    if "check_low_confidence er = Inr sigs"
    using check_low_confidence_absent [OF absent that] .
  have run: "confidence_score res = JFloat (Fin (1 / 2))
          \<and> determine_recommendation (validation_errors res) (fraud_signals res)
                (JFloat (Fin (1 / 2))) (truthy (pipeline_is_readable er))
              = Inr (recommendation res, explanation res)
          \<and> (\<exists>rest. fraud_signals res = low_confidence_signal ''0.00'' # rest)"
    if r: "run_verification_pipeline to_text now rid hint er = Inr res"
  proof -
    from run_verification_pipeline_returned [OF r] pipe
    have score: "confidence_score res = JFloat (Fin (1 / 2))"
      and verdict: "determine_recommendation (validation_errors res) (fraud_signals res)
                (JFloat (Fin (1 / 2))) (truthy (pipeline_is_readable er))
              = Inr (recommendation res, explanation res)"
      and detect: "detect_fraud_signals to_text er = Inr (fraud_signals res)"
      by auto
    from detect obtain s1 s2 s3 s4
      where s1: "check_low_confidence er = Inr s1"
        and all: "fraud_signals res = s1 @ s2 @ s3 @ s4"
      unfolding detect_fraud_signals_iff by blast
    from check_low_confidence_absent [OF absent s1] all
    have "\<exists>rest. fraud_signals res = low_confidence_signal ''0.00'' # rest" by auto
    with score verdict show ?thesis by blast
  qed
  from fraud pipe check run
  show "fraud_overall_confidence er = JInt 0
     \<and> pipeline_overall_confidence er = JFloat (Fin (1 / 2))
     \<and> (check_low_confidence er = Inr sigs
          \<longrightarrow> (\<exists>rest. sigs = low_confidence_signal ''0.00'' # rest))
     \<and> (run_verification_pipeline to_text now rid hint er = Inr res \<longrightarrow>
          confidence_score res = JFloat (Fin (1 / 2))
          \<and> determine_recommendation (validation_errors res) (fraud_signals res)
                (JFloat (Fin (1 / 2))) (truthy (pipeline_is_readable er))
              = Inr (recommendation res, explanation res)
          \<and> (\<exists>rest. fraud_signals res = low_confidence_signal ''0.00'' # rest))"
    by blast
qed

lemma empty_result_checks:
  "resolve_document_type None [] = Inr UNKNOWN"
  "validate_fields example_now UNKNOWN [] = Inr [''Name field is missing or too short'']"
  "detect_fraud_signals simple_text [] = Inr [low_confidence_signal ''0.00'']"
  by (simp_all add: resolve_document_type_def DocumentType_of_def py_lower_def lower_char_def
        dict_get_def validate_fields_def validate_name_def validate_dob_def value_of_field_def
        attr_get_def suspicious_characters_def detect_fraud_signals_def check_low_confidence_def
        fraud_overall_confidence_def zero_shown py_items_def check_field_consistency_def
        check_issues_from_vlm_def check_llm_fraud_analysis_def
        del: format_2f.simps)

lemma empty_result_run:
  "run_verification_pipeline simple_text example_now ''request-1'' None []
   = Inr \<lparr>request_id = ''request-1'',
          document_type = UNKNOWN,
          confidence_score = JFloat (Fin (1 / 2)),
          result_fields = [],
          validation_errors = [''Name field is missing or too short''],
          fraud_signals = [low_confidence_signal ''0.00''],
          recommendation = REVIEW,
          explanation = ''Low extraction confidence (0.50)''\<rparr>"
  using empty_result_checks
  by (simp add: run_verification_pipeline_def pipeline_overall_confidence_def
        pipeline_is_readable_def dict_get_def py_items_def determine_recommendation_def
        low_confidence_signal_def fixed2_def round_half_even_def show_nat.simps digit_char_def)

text \<open>The pipeline on the empty extraction result: the fraud signal shows 0.00, the
  explanation of the policy and the score show 0.5.\<close>

theorem absent_confidence_counterexample:
  "run_verification_pipeline simple_text
     \<lparr>dt_year = 2026, dt_month = 11, dt_day = 4, dt_hour = 9, dt_minute = 30,
      dt_second = 15, dt_microsecond = 250000\<rparr> ''request-1'' None []
   = Inr \<lparr>request_id = ''request-1'',
          document_type = UNKNOWN,
          confidence_score = JFloat (Fin (1 / 2)),
          result_fields = [],
          validation_errors = [''Name field is missing or too short''],
          fraud_signals = [\<lparr>signal_type = ''LOW_CONFIDENCE'',
                             description = ''Overall extraction confidence is very low (0.00)'',
                             severity = ''MEDIUM''\<rparr>],
          recommendation = REVIEW,
          explanation = ''Low extraction confidence (0.50)''\<rparr>"
  using empty_result_run by (simp add: example_now_def low_confidence_signal_def)

theorem absent_confidence_defaults_witness:
  "map_of ([] :: (string \<times> json) list) ''confidence'' = None
   \<and> fraud_overall_confidence [] = JInt 0
   \<and> pipeline_overall_confidence [] = JFloat (Fin (1 / 2))
   \<and> check_low_confidence [] = Inr [low_confidence_signal ''0.00'']
   \<and> (\<exists>res. run_verification_pipeline simple_text example_now ''request-1'' None [] = Inr res
         \<and> confidence_score res = JFloat (Fin (1 / 2))
         \<and> explanation res = ''Low extraction confidence (0.50)''
         \<and> fraud_signals res = [low_confidence_signal ''0.00''])"
proof -
  have run: "check_low_confidence [] = Inr [low_confidence_signal ''0.00'']"
    by (simp add: check_low_confidence_def fraud_overall_confidence_def zero_shown py_items_def
          dict_get_def del: format_2f.simps)
  from absent_confidence_defaults [of "[]" "[low_confidence_signal ''0.00'']"] run
    empty_result_run
  show ?thesis by simp
qed

subsection \<open>Normalization of the fields\<close>

lemma clean_example_checks:
  "resolve_document_type None clean_example = Inr PASSPORT"
  "normalize_fields simple_text
     [(''name'', JObj [(''value'', JStr ''Asha Rao''), (''confidence'', JFloat (Fin (4 / 5)))]),
      (''address'', JStr ''12 Hill Road''),
      (''age'', JObj [(''value'', JInt 42)])]
   = Inr [(''name'', \<lparr>field_value = ''Asha Rao'', confidence = Fin (4 / 5)\<rparr>),
          (''address'', \<lparr>field_value = ''12 Hill Road'', confidence = Fin (1 / 2)\<rparr>),
          (''age'', \<lparr>field_value = ''42'', confidence = Fin (1 / 2)\<rparr>)]"
  "validate_fields example_now PASSPORT
     [(''name'', JObj [(''value'', JStr ''Asha Rao''), (''confidence'', JFloat (Fin (4 / 5)))]),
      (''address'', JStr ''12 Hill Road''),
      (''age'', JObj [(''value'', JInt 42)])]
   = Inr []"
  by (simp_all add: clean_example_def resolve_document_type_def DocumentType_of_def py_lower_def
        lower_char_def char_of_def bit_0 dict_get_def normalize_field_def py_str_def
        simple_text_def show_nat.simps digit_char_def validate_fields_def validate_name_def
        validate_dob_def value_of_field_def attr_get_def suspicious_characters_def py_strip_def
        strip_with_def py_isspace_def)

lemma clean_example_signals:
  "detect_fraud_signals simple_text clean_example
     = Inr [low_field_confidence_signal ''age'' ''0.00'']"
  by (simp add: clean_example_def detect_fraud_signals_def check_low_confidence_def
        fraud_overall_confidence_def dict_get_def py_items_def field_confidence_check_def
        float_overflow_def fixed2_def round_half_even_def show_nat.simps digit_char_def
        check_field_consistency_def attr_get_def in_devanagari_def in_latin_def code_points_def
        lex_le_def py_lower_def lower_char_def char_of_def bit_0
        check_issues_from_vlm_def check_llm_fraud_analysis_def)

lemma clean_example_run:
  "run_verification_pipeline simple_text example_now ''request-2'' None clean_example
   = Inr \<lparr>request_id = ''request-2'',
          document_type = PASSPORT,
          confidence_score = JFloat (Fin (9 / 10)),
          result_fields =
            [(''name'', \<lparr>field_value = ''Asha Rao'', confidence = Fin (4 / 5)\<rparr>),
             (''address'', \<lparr>field_value = ''12 Hill Road'', confidence = Fin (1 / 2)\<rparr>),
             (''age'', \<lparr>field_value = ''42'', confidence = Fin (1 / 2)\<rparr>)],
          validation_errors = [],
          fraud_signals = [low_field_confidence_signal ''age'' ''0.00''],
          recommendation = APPROVE,
          explanation = ''Minor issues detected but confidence is high''\<rparr>"
proof -
  have fields: "dict_get clean_example ''fields'' (JObj [])
      = JObj [(''name'', JObj [(''value'', JStr ''Asha Rao''),
                                (''confidence'', JFloat (Fin (4 / 5)))]),
              (''address'', JStr ''12 Hill Road''),
              (''age'', JObj [(''value'', JInt 42)])]"
    by (simp add: clean_example_def dict_get_def)
  have conf: "pipeline_overall_confidence clean_example = JFloat (Fin (9 / 10))"
    "pipeline_is_readable clean_example = JBool True"
    by (simp_all add: clean_example_def pipeline_overall_confidence_def pipeline_is_readable_def
          dict_get_def)
  have verdict: "determine_recommendation [] [low_field_confidence_signal ''age'' ''0.00'']
       (JFloat (Fin (9 / 10))) True
     = Inr (APPROVE, ''Minor issues detected but confidence is high'')"
    by (simp add: determine_recommendation_def low_field_confidence_signal_def)
  show ?thesis
    by (simp add: run_verification_pipeline_def Let_def fields conf py_items_def
          clean_example_checks clean_example_signals verdict
          del: normalize_fields.simps)
qed

lemma normalize_field_returns:
  "(\<exists>f. normalize_field to_text v = Inr f) \<longleftrightarrow> convertible_entry v"
  by (cases v) (auto simp: normalize_field_def convertible_entry_def split: sum.splits)

lemma normalize_fields_returns:
  "(\<exists>out. normalize_fields to_text items = Inr out)
     \<longleftrightarrow> list_all (\<lambda>kv. convertible_entry (snd kv)) items"
proof (induction items)
  case Nil
  then show ?case by simp
next
  case (Cons kv items)
  obtain k v where kv: "kv = (k, v)" by (cases kv)
  show ?case
    using Cons.IH normalize_field_returns [of to_text v] kv
    by (auto simp: and_then_eq_Inr)
qed

lemma normalize_fields_names:
  assumes "normalize_fields to_text items = Inr out"
  shows "map fst out = map fst items"
  using assms
proof (induction items arbitrary: out)
  case Nil
  then show ?case by simp
next
  case (Cons kv items)
  obtain k v where kv: "kv = (k, v)" by (cases kv)
  with Cons.prems obtain f fs
    where "normalize_fields to_text items = Inr fs" and "out = (k, f) # fs"
    by (auto simp: and_then_eq_Inr)
  with Cons.IH kv show ?case by simp
qed

lemma normalize_field_raises:
  assumes "map_of d ''confidence'' = Some c" and "py_float c = Inl e"
  shows "normalize_field to_text (JObj d) = Inl e"
  using assms by (simp add: normalize_field_def dict_get_def)

lemma well_shaped_value:
  assumes "well_shaped flds key"
  shows "\<exists>s. value_of_field flds key = Inr (JStr s)"
proof (cases "map_of flds key")
  case None
  then show ?thesis by (simp add: value_of_field_def attr_get_def dict_get_def)
next
  case (Some v)
  with assms obtain d where d: "v = JObj d"
    by (cases v) (simp_all add: well_shaped_def)
  show ?thesis
  proof (cases "map_of d ''value''")
    case None
    with Some d show ?thesis by (simp add: value_of_field_def attr_get_def dict_get_def)
  next
    case (Some w)
    with assms \<open>map_of flds key = Some v\<close> d obtain s where "w = JStr s"
      by (cases w) (simp_all add: well_shaped_def)
    with Some \<open>map_of flds key = Some v\<close> d show ?thesis
      by (simp add: value_of_field_def attr_get_def dict_get_def)
  qed
qed


lemma validate_fields_returns:
  assumes "well_shaped flds ''name''" and "well_shaped flds ''dob''"
    and "well_shaped flds ''id_number''"
  shows "\<exists>errs. validate_fields now doc_type flds = Inr errs"
proof -
  from well_shaped_value [OF assms(1)] obtain n where "value_of_field flds ''name'' = Inr (JStr n)" ..
  then obtain e1 where name: "validate_name flds = Inr e1"
    by (cases "n = []") (simp_all add: validate_name_def)
  from well_shaped_value [OF assms(2)] obtain b where "value_of_field flds ''dob'' = Inr (JStr b)" ..
  then obtain e2 where dob: "validate_dob now flds = Inr e2"
    by (cases "b = []") (simp_all add: validate_dob_def)
  from well_shaped_value [OF assms(3)] obtain i
    where idn: "value_of_field flds ''id_number'' = Inr (JStr i)" ..
  obtain a1 where a1: "validate_aadhaar flds = Inr a1"
    using idn by (simp add: validate_aadhaar_def Let_def)
  obtain a2 where a2: "validate_pan flds = Inr a2"
    using idn by (simp add: validate_pan_def Let_def)
  obtain a3 where a3: "validate_voter_id flds = Inr a3"
    using idn by (simp add: validate_voter_id_def Let_def)
  show ?thesis
    by (simp add: validate_fields_def name dob a1 a2 a3)
qed

text \<open>
  \<^bold>\<open>C2\<close> (as amended). The normalization of the fields returns exactly when every
  item is accepted: an item that is not a dictionary is wrapped with confidence 0.5,
  a value of any type is turned into text, a missing confidence is 0.5 and a float
  confidence is kept; a confidence that \<^verbatim>\<open>float\<close> rejects raises the error of
  \<^verbatim>\<open>float\<close>, with no fall-back to the default, and the pipeline then returns no
  result. The result has the names of the items, in their order. The validation
  returns whenever the fields \<^verbatim>\<open>name\<close>, \<^verbatim>\<open>dob\<close> and \<^verbatim>\<open>id_number\<close> are absent or
  dictionaries whose value is absent or a string.
\<close>

theorem normalization_raises_on_confidence:
  "((\<exists>out. normalize_fields to_text items = Inr out)
       \<longleftrightarrow> list_all (\<lambda>kv. convertible_entry (snd kv)) items)
   \<and> (normalize_fields to_text items = Inr out \<longrightarrow> map fst out = map fst items)
   \<and> (\<not> is_dict v \<longrightarrow>
        convertible_entry v
        \<and> normalize_field to_text v
            = Inr \<lparr>field_value = py_str to_text v, confidence = Fin (1 / 2)\<rparr>)
   \<and> (map_of d ''confidence'' = None \<longrightarrow>
        convertible_entry (JObj d)
        \<and> normalize_field to_text (JObj d)
            = Inr \<lparr>field_value = py_str to_text (dict_get d ''value'' (JStr [])),
                   confidence = Fin (1 / 2)\<rparr>)
   \<and> (map_of d ''confidence'' = Some (JFloat c) \<longrightarrow>
        convertible_entry (JObj d)
        \<and> normalize_field to_text (JObj d)
            = Inr \<lparr>field_value = py_str to_text (dict_get d ''value'' (JStr [])),
                   confidence = c\<rparr>)
   \<and> (map_of d ''confidence'' = Some x \<and> py_float x = Inl e \<longrightarrow>
        \<not> convertible_entry (JObj d) \<and> normalize_field to_text (JObj d) = Inl e)
   \<and> (run_verification_pipeline to_text now rid hint er = Inr res \<longrightarrow>
        (\<exists>fs. dict_get er ''fields'' (JObj []) = JObj fs
           \<and> list_all (\<lambda>kv. convertible_entry (snd kv)) fs))
   \<and> (well_shaped items ''name'' \<and> well_shaped items ''dob'' \<and> well_shaped items ''id_number''
        \<longrightarrow> (\<exists>errs. validate_fields now doc_type items = Inr errs))"
proof -
  have returns: "(\<exists>out. normalize_fields to_text items = Inr out)
       \<longleftrightarrow> list_all (\<lambda>kv. convertible_entry (snd kv)) items"
    by (rule normalize_fields_returns)
  have names: "normalize_fields to_text items = Inr out \<longrightarrow> map fst out = map fst items"
    using normalize_fields_names by blast
  have scalar: "\<not> is_dict v \<longrightarrow>
        convertible_entry v
        \<and> normalize_field to_text v
            = Inr \<lparr>field_value = py_str to_text v, confidence = Fin (1 / 2)\<rparr>"
    by (cases v) (simp_all add: is_dict_def convertible_entry_def normalize_field_def)
  have absent: "map_of d ''confidence'' = None \<longrightarrow>
        convertible_entry (JObj d)
        \<and> normalize_field to_text (JObj d)
            = Inr \<lparr>field_value = py_str to_text (dict_get d ''value'' (JStr [])),
                   confidence = Fin (1 / 2)\<rparr>"
    by (simp add: convertible_entry_def normalize_field_def dict_get_def)
  have float: "map_of d ''confidence'' = Some (JFloat c) \<longrightarrow>
        convertible_entry (JObj d)
        \<and> normalize_field to_text (JObj d)
            = Inr \<lparr>field_value = py_str to_text (dict_get d ''value'' (JStr [])),
                   confidence = c\<rparr>"
    by (simp add: convertible_entry_def normalize_field_def dict_get_def)
  have raises: "map_of d ''confidence'' = Some x \<and> py_float x = Inl e \<longrightarrow>
        \<not> convertible_entry (JObj d) \<and> normalize_field to_text (JObj d) = Inl e"
    by (simp add: convertible_entry_def normalize_field_def dict_get_def)
  have run: "run_verification_pipeline to_text now rid hint er = Inr res \<longrightarrow>
        (\<exists>fs. dict_get er ''fields'' (JObj []) = JObj fs
           \<and> list_all (\<lambda>kv. convertible_entry (snd kv)) fs)"
  proof
    assume r: "run_verification_pipeline to_text now rid hint er = Inr res"
    from run_verification_pipeline_returned [OF r] obtain fs flds
      where items: "py_items (dict_get er ''fields'' (JObj [])) = Inr fs"
        and norm: "normalize_fields to_text fs = Inr flds"
      by blast
    from items have "dict_get er ''fields'' (JObj []) = JObj fs"
      by (cases "dict_get er ''fields'' (JObj [])") (simp_all add: py_items_def)
    moreover from norm normalize_fields_returns [of to_text fs]
    have "list_all (\<lambda>kv. convertible_entry (snd kv)) fs" by blast
    ultimately show "\<exists>fs. dict_get er ''fields'' (JObj []) = JObj fs
           \<and> list_all (\<lambda>kv. convertible_entry (snd kv)) fs" by blast
  qed
  have valid: "well_shaped items ''name'' \<and> well_shaped items ''dob''
        \<and> well_shaped items ''id_number''
        \<longrightarrow> (\<exists>errs. validate_fields now doc_type items = Inr errs)"
    using validate_fields_returns by blast
  from returns names scalar absent float raises run valid
  show ?thesis by - (intro conjI; assumption)
qed

lemma high_is_no_float: "py_float (JStr ''high'') = Inl ValueError"
  by (simp add: strip_with_def float_isspace_def is_digit_def str_to_double_def parse_sign_def
        py_lower_def lower_char_def)

theorem normalization_raises_on_confidence_witness:
  "map_of [(''value'', JStr ''Asha Rao''), (''confidence'', JStr ''high'')] ''confidence''
     = Some (JStr ''high'')
   \<and> py_float (JStr ''high'') = Inl ValueError
   \<and> \<not> convertible_entry (JObj [(''value'', JStr ''Asha Rao''), (''confidence'', JStr ''high'')])
   \<and> normalize_field simple_text
         (JObj [(''value'', JStr ''Asha Rao''), (''confidence'', JStr ''high'')])
       = Inl ValueError
   \<and> \<not> is_dict (JStr ''12 Hill Road'')
   \<and> normalize_field simple_text (JStr ''12 Hill Road'')
       = Inr \<lparr>field_value = ''12 Hill Road'', confidence = Fin (1 / 2)\<rparr>
   \<and> map_of [(''value'', JInt 42)] ''confidence'' = None
   \<and> normalize_field simple_text (JObj [(''value'', JInt 42)])
       = Inr \<lparr>field_value = ''42'', confidence = Fin (1 / 2)\<rparr>
   \<and> (\<exists>res. run_verification_pipeline simple_text example_now ''request-2'' None clean_example
                = Inr res
         \<and> recommendation res = APPROVE)
   \<and> dict_get clean_example ''fields'' (JObj [])
       = JObj [(''name'', JObj [(''value'', JStr ''Asha Rao''),
                                 (''confidence'', JFloat (Fin (4 / 5)))]),
               (''address'', JStr ''12 Hill Road''),
               (''age'', JObj [(''value'', JInt 42)])]
   \<and> list_all (\<lambda>kv. convertible_entry (snd kv))
         [(''name'', JObj [(''value'', JStr ''Asha Rao''),
                           (''confidence'', JFloat (Fin (4 / 5)))]),
          (''address'', JStr ''12 Hill Road''),
          (''age'', JObj [(''value'', JInt 42)])]
   \<and> well_shaped [(''name'', JObj [(''value'', JStr ''Asha Rao''),
                                    (''confidence'', JFloat (Fin (4 / 5)))]),
                   (''address'', JStr ''12 Hill Road''),
                   (''age'', JObj [(''value'', JInt 42)])] ''name''
   \<and> well_shaped [(''name'', JObj [(''value'', JStr ''Asha Rao''),
                                    (''confidence'', JFloat (Fin (4 / 5)))]),
                   (''address'', JStr ''12 Hill Road''),
                   (''age'', JObj [(''value'', JInt 42)])] ''dob''"
proof -
  have key: "map_of [(''value'', JStr ''Asha Rao''), (''confidence'', JStr ''high'')] ''confidence''
     = Some (JStr ''high'')"
    by simp
  have scalar: "\<not> is_dict (JStr ''12 Hill Road'')"
    by (simp add: is_dict_def)
  have absent: "map_of [(''value'', JInt 42)] ''confidence'' = None"
    by simp
  have forty_two: "simple_text (JInt 42) = ''42''"
    by (simp add: simple_text_def show_nat.simps digit_char_def)
  have fields: "dict_get clean_example ''fields'' (JObj [])
       = JObj [(''name'', JObj [(''value'', JStr ''Asha Rao''),
                                 (''confidence'', JFloat (Fin (4 / 5)))]),
               (''address'', JStr ''12 Hill Road''),
               (''age'', JObj [(''value'', JInt 42)])]"
    by (simp add: clean_example_def dict_get_def)
  have shaped:
    "well_shaped [(''name'', JObj [(''value'', JStr ''Asha Rao''),
                                    (''confidence'', JFloat (Fin (4 / 5)))]),
                   (''address'', JStr ''12 Hill Road''),
                   (''age'', JObj [(''value'', JInt 42)])] ''name''"
    "well_shaped [(''name'', JObj [(''value'', JStr ''Asha Rao''),
                                    (''confidence'', JFloat (Fin (4 / 5)))]),
                   (''address'', JStr ''12 Hill Road''),
                   (''age'', JObj [(''value'', JInt 42)])] ''dob''"
    by (simp_all add: well_shaped_def)
  have bad: "\<not> convertible_entry (JObj [(''value'', JStr ''Asha Rao''), (''confidence'', JStr ''high'')])
     \<and> normalize_field simple_text
         (JObj [(''value'', JStr ''Asha Rao''), (''confidence'', JStr ''high'')])
       = Inl ValueError"
    using normalization_raises_on_confidence
      [of simple_text "[]" "[]" "JStr ''12 Hill Road''"
        "[(''value'', JStr ''Asha Rao''), (''confidence'', JStr ''high'')]" _ "JStr ''high''"
        ValueError]
      key high_is_no_float
    by blast
  have good: "normalize_field simple_text (JStr ''12 Hill Road'')
       = Inr \<lparr>field_value = ''12 Hill Road'', confidence = Fin (1 / 2)\<rparr>"
    "normalize_field simple_text (JObj [(''value'', JInt 42)])
       = Inr \<lparr>field_value = ''42'', confidence = Fin (1 / 2)\<rparr>"
    by (simp_all add: normalize_field_def py_str_def dict_get_def forty_two)
  have all: "list_all (\<lambda>kv. convertible_entry (snd kv))
         [(''name'', JObj [(''value'', JStr ''Asha Rao''),
                           (''confidence'', JFloat (Fin (4 / 5)))]),
          (''address'', JStr ''12 Hill Road''),
          (''age'', JObj [(''value'', JInt 42)])]"
    by (simp add: convertible_entry_def dict_get_def)
  have run: "\<exists>res. run_verification_pipeline simple_text example_now ''request-2'' None
                  clean_example = Inr res
         \<and> recommendation res = APPROVE"
    using clean_example_run by simp
  from key high_is_no_float bad [THEN conjunct1] bad [THEN conjunct2] scalar good(1) absent
    good(2) run fields all shaped
  show ?thesis by - (intro conjI; assumption)
qed

text \<open>A confidence that \<^verbatim>\<open>float\<close> rejects: the normalization raises and the pipeline
  gives no result.\<close>

theorem malformed_confidence_counterexample:
  "normalize_fields simple_text
     [(''name'', JObj [(''value'', JStr ''Asha Rao''), (''confidence'', JStr ''high'')])]
   = Inl ValueError
   \<and> run_verification_pipeline simple_text
       \<lparr>dt_year = 2026, dt_month = 11, dt_day = 4, dt_hour = 9, dt_minute = 30,
        dt_second = 15, dt_microsecond = 250000\<rparr> ''request-1'' None
       [(''document_type'', JStr ''pan''),
        (''confidence'', JFloat (Fin (9 / 10))),
        (''fields'', JObj [(''name'', JObj [(''value'', JStr ''Asha Rao''),
                                            (''confidence'', JStr ''high'')])])]
   = Inl ValueError"
proof -
  have norm: "normalize_fields simple_text
     [(''name'', JObj [(''value'', JStr ''Asha Rao''), (''confidence'', JStr ''high'')])]
   = Inl ValueError"
    using high_is_no_float by (simp add: normalize_field_def dict_get_def del: py_float.simps)
  have doc: "resolve_document_type None
       [(''document_type'', JStr ''pan''),
        (''confidence'', JFloat (Fin (9 / 10))),
        (''fields'', JObj [(''name'', JObj [(''value'', JStr ''Asha Rao''),
                                            (''confidence'', JStr ''high'')])])]
     = Inr PAN"
    by (simp add: resolve_document_type_def dict_get_def DocumentType_of_def py_lower_def
          lower_char_def)
  from norm doc show ?thesis
    by (simp add: run_verification_pipeline_def dict_get_def py_items_def)
qed


text \<open>A field that arrives as a bare scalar is accepted by the normalization and by
  the field confidence check, which test for a dictionary, and raises in the validator
  and in the script-consistency check, which do not.\<close>

lemma bare_scalar_name_raises:
  "normalize_fields simple_text [(''name'', JStr ''Asha Rao'')]
     = Inr [(''name'', \<lparr>field_value = ''Asha Rao'', confidence = Fin (1 / 2)\<rparr>)]"
  "validate_name [(''name'', JStr ''Asha Rao'')] = Inl AttributeError"
  "validate_fields now doc_type [(''name'', JStr ''Asha Rao'')] = Inl AttributeError"
  "check_field_consistency [(''fields'', JObj [(''name'', JStr ''Asha Rao'')])]
     = Inl AttributeError"
  by (simp_all add: normalize_field_def py_str_def validate_fields_def validate_name_def
        value_of_field_def attr_get_def dict_get_def check_field_consistency_def)

end
